theory Spec2Isabelle
  imports Complex_Main "HOL-Library.AList" "HOL-Library.Char_ord" "HOL-Library.List_Lexorder"
begin

section \<open>JSON documents\<close>

text \<open>
  Every message on every channel and every HTTP body is a JSON document. A document is
  represented by its abstract syntax; a JavaScript \<open>Date\<close> is represented by the
  ISO-8601 text that \<open>toISOString\<close> and \<open>toJSON\<close> put on the wire. The text layer
  written by \<open>JSON.stringify\<close> and read by Go's \<open>encoding/json\<close> is library code: a
  body is either the document it denotes, or raw text that the scanner of the reader
  refuses as JSON. The order of the members of an object is kept as written.
\<close>

datatype json =
    JNull
  | JBool bool
  | JNumber real
  | JString string
  | JArray "json list"
  | JObject "(string \<times> json) list"

datatype payload = NotJSON string | JSON json

type_synonym fields = "(string \<times> json) list"

text \<open>
  A number fits a \<open>float64\<close> when it is closer to the largest one than to \<open>2 ^ 1024\<close>;
  a document fits when all its numbers do. JavaScript writes no other number, and Go
  refuses any other number when it decodes into an \<open>interface{}\<close>.
\<close>

definition float64_limit :: real where
  "float64_limit = 2 ^ 1024 - 2 ^ 970"

fun fits_float64 :: "json \<Rightarrow> bool" where
  "fits_float64 (JNumber r) = (\<bar>r\<bar> < float64_limit)"
| "fits_float64 (JArray xs) = list_all fits_float64 xs"
| "fits_float64 (JObject kvs) = list_all (\<lambda>(k, v). fits_float64 v) kvs"
| "fits_float64 _ = True"

text \<open>The lower-case form of an ASCII letter; any other byte is left as it is.\<close>

definition to_lower :: "char \<Rightarrow> char" where
  "to_lower c =
     (case map_of (zip ''ABCDEFGHIJKLMNOPQRSTUVWXYZ'' ''abcdefghijklmnopqrstuvwxyz'') c of
        Some l \<Rightarrow> l
      | None \<Rightarrow> c)"

section \<open>The Node API (Express service)\<close>

subsection \<open>JavaScript values and exceptions\<close>

datatype js_error = JsError (message: string)

text \<open>
  Property access \<open>data.id\<close>: it throws a TypeError on \<open>null\<close>, reads the property of
  an object (\<open>None\<close> is \<open>undefined\<close>), and is \<open>undefined\<close> on the other values the
  handlers pass.
\<close>

fun get_prop :: "json \<Rightarrow> string \<Rightarrow> js_error + json option" where
  "get_prop JNull k = Inl (JsError (''Cannot read properties of null (reading '' @ k @ '')''))"
| "get_prop (JObject kvs) k = Inr (map_of kvs k)"
| "get_prop _ k = Inr None"

text \<open>
  \<open>JSON.stringify\<close> of an object literal: a property whose value is \<open>undefined\<close> is
  left out of the document.
\<close>

definition stringify_object :: "(string \<times> json option) list \<Rightarrow> json" where
  "stringify_object props = JObject (List.map_filter (\<lambda>(k, v). map_option (Pair k) v) props)"

text \<open>\<open>s.replace(pat, rep)\<close> with a string pattern replaces its first occurrence.\<close>

fun replace_first :: "string \<Rightarrow> string \<Rightarrow> string \<Rightarrow> string" where
  "replace_first pat rep [] = (if pat = [] then rep else [])"
| "replace_first pat rep (c # cs) =
     (if take (length pat) (c # cs) = pat then rep @ drop (length pat) (c # cs)
      else c # replace_first pat rep cs)"

subsection \<open>The process state and its collaborators\<close>

text \<open>
  A connection to a collaborator is up, or down with the message of the error its
  operations raise.
\<close>

datatype link = Up | Down string

datatype store_op =
    Save fields
  | FindByIdAndUpdate string fields
  | FindByIdAndDelete string

text \<open>
  The state the handlers of the Node API read and write: the \<open>Item\<close> collection, the
  Kafka producer, the module variable \<open>rabbitChannel\<close> (\<open>None\<close> is \<open>null\<close>), what
  has been emitted to the log topics and to the queues, the console (the entries that the
  service's own \<open>console.log\<close> and \<open>console.error\<close> calls write), and the clock that
  \<open>new Date()\<close> and \<open>Date.now\<close> read. The record store is a collaborator, and what it
  decides by itself is given with the state: \<open>store_error\<close> is its verdict on an
  operation (the error it raises: validation, casting, connection; or \<open>None\<close> when it
  carries the operation out), \<open>object_id_of\<close> is the \<open>ObjectId\<close> it casts the text of an
  identifier to (\<open>None\<close> when the text is none), \<open>caster\<close> is the value it converts a
  supplied value to when that value is not of the type the schema gives the path, and
  \<open>apply_operators\<close> is what an update holding \<open>$\<close> operators makes of a document.
\<close>

datatype console_entry = ConsoleLog string | ConsoleError string js_error

record node_world =
  items :: "(string \<times> fields) list"
  store_error :: "store_op \<Rightarrow> js_error option"
  object_id_of :: "string \<Rightarrow> string option"
  caster :: "string \<Rightarrow> json \<Rightarrow> json"
  apply_operators :: "fields \<Rightarrow> fields \<Rightarrow> fields"
  producer :: link
  rabbitChannel :: "link option"
  kafka_log :: "(string \<times> payload) list"
  rabbit_queues :: "(string \<times> payload) list"
  console :: "console_entry list"
  clock :: "nat \<Rightarrow> string"
  ticks :: nat
  object_ids :: "nat \<Rightarrow> string"
  made_ids :: nat

definition new_Date :: "node_world \<Rightarrow> string \<times> node_world" where
  "new_Date w = (clock w (ticks w), w\<lparr>ticks := Suc (ticks w)\<rparr>)"

definition new_ObjectId :: "node_world \<Rightarrow> string \<times> node_world" where
  "new_ObjectId w = (object_ids w (made_ids w), w\<lparr>made_ids := Suc (made_ids w)\<rparr>)"

definition console_log :: "string \<Rightarrow> node_world \<Rightarrow> node_world" where
  "console_log line w = w\<lparr>console := console w @ [ConsoleLog line]\<rparr>"

definition console_error :: "string \<Rightarrow> js_error \<Rightarrow> node_world \<Rightarrow> node_world" where
  "console_error line e w = w\<lparr>console := console w @ [ConsoleError line e]\<rparr>"

text \<open>\<open>producer.send({topic, messages: [{value}]})\<close>: rejects when the producer is down.\<close>

definition producer_send :: "string \<Rightarrow> payload \<Rightarrow> node_world \<Rightarrow> (js_error + unit) \<times> node_world" where
  "producer_send topic v w =
     (case producer w of
        Down msg \<Rightarrow> (Inl (JsError msg), w)
      | Up \<Rightarrow> (Inr (), w\<lparr>kafka_log := kafka_log w @ [(topic, v)]\<rparr>))"

text \<open>\<open>channel.sendToQueue(queue, content, options)\<close>: throws when the channel is down.\<close>

definition sendToQueue :: "link \<Rightarrow> string \<Rightarrow> payload \<Rightarrow> node_world \<Rightarrow> (js_error + unit) \<times> node_world" where
  "sendToQueue ch queue content w =
     (case ch of
        Down msg \<Rightarrow> (Inl (JsError msg), w)
      | Up \<Rightarrow> (Inr (), w\<lparr>rabbit_queues := rabbit_queues w @ [(queue, content)]\<rparr>))"

subsection \<open>publishItemEvent\<close>

text \<open>The value of the Kafka message: \<open>{event, data, timestamp}\<close>.\<close>

definition kafka_value :: "string \<Rightarrow> json \<Rightarrow> string \<Rightarrow> payload" where
  "kafka_value event data ts =
     JSON (stringify_object
       [(''event'', Some (JString event)), (''data'', Some data), (''timestamp'', Some (JString ts))])"

text \<open>
  The spread \<open>...(event === 'item_deleted' ? { itemId: data.id } : { item: data })\<close>:
  the one property it contributes to \<open>rabbitMessage\<close>.
\<close>

definition item_part :: "string \<Rightarrow> json \<Rightarrow> js_error + (string \<times> json option)" where
  "item_part event data =
     (if event = ''item_deleted''
      then (case get_prop data ''id'' of Inl e \<Rightarrow> Inl e | Inr v \<Rightarrow> Inr (''itemId'', v))
      else Inr (''item'', Some data))"

definition rabbitMessage :: "string \<Rightarrow> (string \<times> json option) \<Rightarrow> string \<Rightarrow> json" where
  "rabbitMessage event part ts =
     stringify_object
       [(''action'', Some (JString (replace_first ''item_'' [] event))),
        part,
        (''timestamp'', Some (JString ts))]"

text \<open>The body of the \<open>try\<close> block of \<open>publishItemEvent\<close>, up to the first exception.\<close>

definition publish_try :: "string \<Rightarrow> json \<Rightarrow> node_world \<Rightarrow> (js_error + unit) \<times> node_world" where
  "publish_try event data w =
     (let (t1, w1) = new_Date w in
      case producer_send ''item-events'' (kafka_value event data t1) w1 of
        (Inl e, w2) \<Rightarrow> (Inl e, w2)
      | (Inr _, w2) \<Rightarrow>
          (case rabbitChannel w2 of
             None \<Rightarrow> (Inr (), w2)
           | Some ch \<Rightarrow>
               (case item_part event data of
                  Inl e \<Rightarrow> (Inl e, w2)
                | Inr part \<Rightarrow>
                    (let (t2, w3) = new_Date w2 in
                     sendToQueue ch ''items_queue'' (JSON (rabbitMessage event part t2)) w3))))"

text \<open>
  \<open>publishItemEvent\<close>: the \<open>try\<close> block, the success line after it, and the \<open>catch\<close>
  that logs and does not rethrow.
\<close>

definition publishItemEvent :: "string \<Rightarrow> json \<Rightarrow> node_world \<Rightarrow> (js_error + unit) \<times> node_world" where
  "publishItemEvent event data w =
     (case publish_try event data w of
        (Inr _, w1) \<Rightarrow> (Inr (), console_log (''Published '' @ event @ '' event successfully'') w1)
      | (Inl e, w1) \<Rightarrow> (Inr (), console_error (''Error publishing '' @ event @ '' event:'') e w1))"

subsection \<open>The record store\<close>

text \<open>
  The \<open>Item\<close> model over the collection. The schema declares six paths: three strings,
  a number and two dates that default to the time of construction. Documents are built
  and updated in strict mode: a member that names no declared path is dropped. A
  supplied value that is of the type of its path (\<open>null\<close> is of every type) is stored as
  it is; any other value is stored as the store converts it. Whether the store accepts
  an operation is \<open>store_error\<close>. A request body's own \<open>_id\<close> and \<open>__v\<close> are not
  modelled.
\<close>

definition schema_paths :: "string list" where
  "schema_paths = [''name'', ''description'', ''price'', ''category'', ''createdAt'', ''updatedAt'']"

definition of_schema_type :: "string \<Rightarrow> json \<Rightarrow> bool" where
  "of_schema_type path v =
     (case v of
        JNull \<Rightarrow> True
      | JString s \<Rightarrow> path \<in> set [''name'', ''description'', ''category'']
      | JNumber r \<Rightarrow> path = ''price'' \<and> \<bar>r\<bar> < float64_limit
      | _ \<Rightarrow> False)"

definition cast_value :: "node_world \<Rightarrow> string \<Rightarrow> json \<Rightarrow> json" where
  "cast_value w path v = (if of_schema_type path v then v else caster w path v)"

definition cast_fields :: "node_world \<Rightarrow> fields \<Rightarrow> fields" where
  "cast_fields w fs =
     map (\<lambda>(path, v). (path, cast_value w path v)) (AList.restrict (set schema_paths) fs)"

definition default_now :: "string \<Rightarrow> fields \<Rightarrow> node_world \<Rightarrow> fields \<times> node_world" where
  "default_now path doc w =
     (case map_of doc path of
        Some v \<Rightarrow> (doc, w)
      | None \<Rightarrow> (let (t, w1) = new_Date w in (doc @ [(path, JString t)], w1)))"

text \<open>
  \<open>new Item(req.body)\<close>: the identifier and the document under construction, made of
  the declared members of the body, the identifier and the defaults.
\<close>

definition new_Item :: "fields \<Rightarrow> node_world \<Rightarrow> (string \<times> fields) \<times> node_world" where
  "new_Item req_body w =
     (let (oid, w1) = new_ObjectId w;
          (doc1, w2) = default_now ''createdAt'' (cast_fields w req_body @ [(''_id'', JString oid)]) w1;
          (doc2, w3) = default_now ''updatedAt'' doc1 w2
      in ((oid, doc2), w3))"

text \<open>\<open>item.save()\<close>: raises what the store raises, or inserts the document.\<close>

definition Item_save :: "string \<times> fields \<Rightarrow> node_world \<Rightarrow> (js_error + fields) \<times> node_world" where
  "Item_save item w =
     (case store_error w (Save (snd item)) of
        Some e \<Rightarrow> (Inl e, w)
      | None \<Rightarrow>
          (let saved = snd item @ [(''__v'', JNumber 0)]
           in (Inr saved, w\<lparr>items := items w @ [(fst item, saved)]\<rparr>)))"

text \<open>
  A top-level key of an update that begins with \<open>$\<close> is an update operator. Without
  operators the update sets its declared members: the value the handler puts at
  \<open>updatedAt\<close> is a \<open>Date\<close> already, the other values are cast as above.
\<close>

definition is_operator :: "string \<Rightarrow> bool" where
  "is_operator k = (take 1 k = ''$'')"

definition set_update :: "node_world \<Rightarrow> fields \<Rightarrow> fields" where
  "set_update w update =
     map (\<lambda>(path, v). (path, if path = ''updatedAt'' then v else cast_value w path v))
       (AList.restrict (set schema_paths) update)"

text \<open>
  \<open>Item.findByIdAndUpdate(id, update, { new: true, runValidators: true })\<close>: raises
  what the store raises, raises a \<open>CastError\<close> when the text is no identifier, answers
  \<open>null\<close> when no document has the identifier, and otherwise updates the document
  and answers the document as updated.
\<close>

definition findByIdAndUpdate ::
  "string \<Rightarrow> fields \<Rightarrow> node_world \<Rightarrow> (js_error + fields option) \<times> node_world" where
  "findByIdAndUpdate item_id update w =
     (case store_error w (FindByIdAndUpdate item_id update) of
        Some e \<Rightarrow> (Inl e, w)
      | None \<Rightarrow>
          (case object_id_of w item_id of
             None \<Rightarrow> (Inl (JsError (''Cast to ObjectId failed for value '' @ item_id)), w)
           | Some oid \<Rightarrow>
               (case map_of (items w) oid of
                  None \<Rightarrow> (Inr None, w)
                | Some doc \<Rightarrow>
                    (let doc' = (if list_ex (\<lambda>(k, v). is_operator k) update
                                 then apply_operators w update doc
                                 else AList.merge doc (set_update w update))
                     in (Inr (Some doc'), w\<lparr>items := AList.update oid doc' (items w)\<rparr>)))))"

text \<open>\<open>Item.findByIdAndDelete(id)\<close>.\<close>

definition findByIdAndDelete ::
  "string \<Rightarrow> node_world \<Rightarrow> (js_error + fields option) \<times> node_world" where
  "findByIdAndDelete item_id w =
     (case store_error w (FindByIdAndDelete item_id) of
        Some e \<Rightarrow> (Inl e, w)
      | None \<Rightarrow>
          (case object_id_of w item_id of
             None \<Rightarrow> (Inl (JsError (''Cast to ObjectId failed for value '' @ item_id)), w)
           | Some oid \<Rightarrow>
               (case map_of (items w) oid of
                  None \<Rightarrow> (Inr None, w)
                | Some doc \<Rightarrow> (Inr (Some doc), w\<lparr>items := AList.delete oid (items w)\<rparr>))))"

subsection \<open>The HTTP handlers\<close>

record response =
  status :: nat
  reply :: json

definition failure :: "nat \<Rightarrow> string \<Rightarrow> response" where
  "failure code msg =
     \<lparr>status = code, reply = JObject [(''success'', JBool False), (''error'', JString msg)]\<rparr>"

text \<open>\<open>POST /api/items\<close>. Each \<open>Inl\<close> branch is the handler's \<open>catch\<close>.\<close>

definition post_api_items :: "fields \<Rightarrow> node_world \<Rightarrow> response \<times> node_world" where
  "post_api_items req_body w =
     (let (item, w1) = new_Item req_body w in
      case Item_save item w1 of
        (Inl e, w2) \<Rightarrow> (failure 400 (message e), w2)
      | (Inr savedItem, w2) \<Rightarrow>
          (case publishItemEvent ''item_created'' (JObject savedItem) w2 of
             (Inl e, w3) \<Rightarrow> (failure 400 (message e), w3)
           | (Inr _, w3) \<Rightarrow>
               (\<lparr>status = 201,
                 reply = JObject [(''success'', JBool True), (''data'', JObject savedItem)]\<rparr>, w3)))"

text \<open>\<open>PUT /api/items/:id\<close>. The update is \<open>{ ...req.body, updatedAt: new Date() }\<close>.\<close>

definition put_api_items_id :: "string \<Rightarrow> fields \<Rightarrow> node_world \<Rightarrow> response \<times> node_world" where
  "put_api_items_id item_id req_body w =
     (let (now, w1) = new_Date w in
      case findByIdAndUpdate item_id (AList.update ''updatedAt'' (JString now) req_body) w1 of
        (Inl e, w2) \<Rightarrow> (failure 400 (message e), w2)
      | (Inr None, w2) \<Rightarrow> (failure 404 ''Item not found'', w2)
      | (Inr (Some updatedItem), w2) \<Rightarrow>
          (case publishItemEvent ''item_updated'' (JObject updatedItem) w2 of
             (Inl e, w3) \<Rightarrow> (failure 400 (message e), w3)
           | (Inr _, w3) \<Rightarrow>
               (\<lparr>status = 200,
                 reply = JObject [(''success'', JBool True), (''data'', JObject updatedItem)]\<rparr>, w3)))"

text \<open>\<open>DELETE /api/items/:id\<close>.\<close>

definition delete_api_items_id :: "string \<Rightarrow> node_world \<Rightarrow> response \<times> node_world" where
  "delete_api_items_id item_id w =
     (case findByIdAndDelete item_id w of
        (Inl e, w1) \<Rightarrow> (failure 500 (message e), w1)
      | (Inr None, w1) \<Rightarrow> (failure 404 ''Item not found'', w1)
      | (Inr (Some deletedItem), w1) \<Rightarrow>
          (case publishItemEvent ''item_deleted'' (JObject [(''id'', JString item_id)]) w1 of
             (Inl e, w2) \<Rightarrow> (failure 500 (message e), w2)
           | (Inr _, w2) \<Rightarrow>
               (\<lparr>status = 200,
                 reply = JObject [(''success'', JBool True),
                                  (''message'', JString ''Item deleted successfully'')]\<rparr>, w2)))"



subsection \<open>Startup of the Node API\<close>

text \<open>
  What the brokers answer to each step of the initialisation: \<open>None\<close> when the step
  succeeds, the message of the error otherwise. The answer to a connect of the Kafka
  client is the one the client settles on, after whatever retries it makes by itself.
\<close>

record node_env =
  producer_connect :: "string option"
  consumer_connect :: "string option"
  consumer_subscribe :: "string option"
  consumer_run :: "string option"
  amqp_connect :: "string option"
  createChannel :: "string option"
  assertQueue :: "string \<Rightarrow> string option"

datatype process = Serving | Terminated string

text \<open>
  \<open>connectRabbitMQ\<close>: the channel is assigned to \<open>rabbitChannel\<close> before the queues are
  declared; a failed declaration closes the channel. The \<open>catch\<close> logs and returns.
\<close>

definition connectRabbitMQ_node :: "node_env \<Rightarrow> node_world \<Rightarrow> (js_error + unit) \<times> node_world" where
  "connectRabbitMQ_node env w =
     (case amqp_connect env of
        Some msg \<Rightarrow> (Inr (), console_error ''RabbitMQ connection error:'' (JsError msg) w)
      | None \<Rightarrow>
          (case createChannel env of
             Some msg \<Rightarrow> (Inr (), console_error ''RabbitMQ connection error:'' (JsError msg) w)
           | None \<Rightarrow>
               (let w1 = w\<lparr>rabbitChannel := Some Up\<rparr> in
                case assertQueue env ''items_queue'' of
                  Some msg \<Rightarrow>
                    (Inr (), console_error ''RabbitMQ connection error:'' (JsError msg)
                               (w1\<lparr>rabbitChannel := Some (Down msg)\<rparr>))
                | None \<Rightarrow>
                    (case assertQueue env ''notifications_queue'' of
                       Some msg \<Rightarrow>
                         (Inr (), console_error ''RabbitMQ connection error:'' (JsError msg)
                                    (w1\<lparr>rabbitChannel := Some (Down msg)\<rparr>))
                     | None \<Rightarrow> (Inr (), console_log ''Connected to RabbitMQ'' w1)))))"

text \<open>The \<open>try\<close> block of \<open>initializeServices\<close>, up to the first exception.\<close>

definition initialize_try :: "node_env \<Rightarrow> node_world \<Rightarrow> (js_error + unit) \<times> node_world" where
  "initialize_try env w =
     (case producer_connect env of
        Some msg \<Rightarrow> (Inl (JsError msg), w)
      | None \<Rightarrow>
          (let w1 = console_log ''Kafka producer connected'' (w\<lparr>producer := Up\<rparr>) in
           case consumer_connect env of
             Some msg \<Rightarrow> (Inl (JsError msg), w1)
           | None \<Rightarrow>
               (case consumer_subscribe env of
                  Some msg \<Rightarrow> (Inl (JsError msg), w1)
                | None \<Rightarrow>
                    (case consumer_run env of
                       Some msg \<Rightarrow> (Inl (JsError msg), w1)
                     | None \<Rightarrow>
                         connectRabbitMQ_node env (console_log ''Kafka consumer connected'' w1)))))"

definition initializeServices :: "node_env \<Rightarrow> node_world \<Rightarrow> (js_error + unit) \<times> node_world" where
  "initializeServices env w =
     (case initialize_try env w of
        (Inr _, w1) \<Rightarrow> (Inr (), w1)
      | (Inl e, w1) \<Rightarrow> (Inr (), console_error ''Error initializing services:'' e w1))"

text \<open>
  \<open>app.listen(PORT, callback)\<close>: the callback runs once the server listens on the port
  (given as its text); an exception leaving it would be an unhandled rejection and end
  the process.
\<close>

definition app_listen :: "string \<Rightarrow> node_env \<Rightarrow> node_world \<Rightarrow> process \<times> node_world" where
  "app_listen port env w =
     (case initializeServices env (console_log (''Node API server running on port '' @ port) w) of
        (Inr _, w1) \<Rightarrow> (Serving, w1)
      | (Inl e, w1) \<Rightarrow> (Terminated (message e), w1))"

text \<open>
  The record store of the Node API: \<open>mongoose.connect\<close> is called when the module is
  loaded and is not awaited, and \<open>app.listen\<close> is called after it whatever becomes of
  the connection. The outcome of the connection (\<open>None\<close>: connected; otherwise the
  message of the error) reaches the two listeners registered on it.
\<close>

definition mongoose_connection :: "string option \<Rightarrow> node_world \<Rightarrow> node_world" where
  "mongoose_connection outcome w =
     (case outcome of
        None \<Rightarrow> console_log ''Connected to MongoDB'' w
      | Some msg \<Rightarrow> console_error ''MongoDB connection error:'' (JsError msg) w)"

section \<open>The Go service\<close>

subsection \<open>Decoding messages\<close>

datatype go_error = SyntaxError | UnmarshalTypeError string

record KafkaMessage =
  Event :: string
  Data :: json
  Timestamp :: string

record RabbitMessage =
  Action :: string
  Item :: json
  ItemID :: string
  r_Timestamp :: string

record NotificationMessage =
  Message :: string
  Recipient :: string
  n_Timestamp :: string

text \<open>
  \<open>json.Unmarshal\<close> matches the key of an object member against the \<open>json\<close> tag of a
  field under Unicode simple case folding. Keys are UTF-8 text: besides the ASCII
  letters, the long s (U+017F, bytes C5 BF) folds to \<open>s\<close> and the Kelvin sign (U+212A,
  bytes E2 84 AA) folds to \<open>k\<close>; no other character folds to an ASCII letter.
\<close>

fun fold_key :: "string \<Rightarrow> string" where
  "fold_key (c1 # c2 # c3 # cs) =
     (if c1 = CHR 0xE2 \<and> c2 = CHR 0x84 \<and> c3 = CHR 0xAA then CHR ''k'' # fold_key cs
      else if c1 = CHR 0xC5 \<and> c2 = CHR 0xBF then CHR ''s'' # fold_key (c3 # cs)
      else to_lower c1 # fold_key (c2 # c3 # cs))"
| "fold_key [c1, c2] =
     (if c1 = CHR 0xC5 \<and> c2 = CHR 0xBF then ''s'' else to_lower c1 # fold_key [c2])"
| "fold_key [c] = [to_lower c]"
| "fold_key [] = []"

definition equalFold :: "string \<Rightarrow> string \<Rightarrow> bool" where
  "equalFold s t = (fold_key s = fold_key t)"

text \<open>
  Decoding a value into a \<open>string\<close> field: \<open>null\<close> leaves the field as it is, a string
  sets it, any other value is an \<open>UnmarshalTypeError\<close>. An \<open>interface{}\<close> field takes
  any value (\<open>JNull\<close> is \<open>nil\<close>); the numbers of that value are taken to fit a
  \<open>float64\<close>, as those are that JavaScript writes.
\<close>

fun bind_string :: "string \<Rightarrow> json \<Rightarrow> string \<Rightarrow> go_error + string" where
  "bind_string field JNull cur = Inr cur"
| "bind_string field (JString s) cur = Inr s"
| "bind_string field _ cur = Inl (UnmarshalTypeError field)"

fun KafkaMessage_members :: "fields \<Rightarrow> KafkaMessage \<Rightarrow> go_error + KafkaMessage" where
  "KafkaMessage_members [] m = Inr m"
| "KafkaMessage_members ((k, v) # kvs) m =
     (if equalFold k ''event'' then
        (case bind_string ''event'' v (Event m) of
           Inl e \<Rightarrow> Inl e
         | Inr s \<Rightarrow> KafkaMessage_members kvs (m\<lparr>Event := s\<rparr>))
      else if equalFold k ''data'' then KafkaMessage_members kvs (m\<lparr>Data := v\<rparr>)
      else if equalFold k ''timestamp'' then
        (case bind_string ''timestamp'' v (Timestamp m) of
           Inl e \<Rightarrow> Inl e
         | Inr s \<Rightarrow> KafkaMessage_members kvs (m\<lparr>Timestamp := s\<rparr>))
      else KafkaMessage_members kvs m)"

text \<open>\<open>json.Unmarshal(message.Value, &kafkaMsg)\<close> into the zero value of the struct.\<close>

fun Unmarshal_KafkaMessage :: "payload \<Rightarrow> go_error + KafkaMessage" where
  "Unmarshal_KafkaMessage (NotJSON s) = Inl SyntaxError"
| "Unmarshal_KafkaMessage (JSON JNull) = Inr \<lparr>Event = [], Data = JNull, Timestamp = []\<rparr>"
| "Unmarshal_KafkaMessage (JSON (JObject kvs)) =
     KafkaMessage_members kvs \<lparr>Event = [], Data = JNull, Timestamp = []\<rparr>"
| "Unmarshal_KafkaMessage (JSON _) = Inl (UnmarshalTypeError ''KafkaMessage'')"

fun RabbitMessage_members :: "fields \<Rightarrow> RabbitMessage \<Rightarrow> go_error + RabbitMessage" where
  "RabbitMessage_members [] m = Inr m"
| "RabbitMessage_members ((k, v) # kvs) m =
     (if equalFold k ''action'' then
        (case bind_string ''action'' v (Action m) of
           Inl e \<Rightarrow> Inl e
         | Inr s \<Rightarrow> RabbitMessage_members kvs (m\<lparr>Action := s\<rparr>))
      else if equalFold k ''item'' then RabbitMessage_members kvs (m\<lparr>Item := v\<rparr>)
      else if equalFold k ''itemId'' then
        (case bind_string ''itemId'' v (ItemID m) of
           Inl e \<Rightarrow> Inl e
         | Inr s \<Rightarrow> RabbitMessage_members kvs (m\<lparr>ItemID := s\<rparr>))
      else if equalFold k ''timestamp'' then
        (case bind_string ''timestamp'' v (r_Timestamp m) of
           Inl e \<Rightarrow> Inl e
         | Inr s \<Rightarrow> RabbitMessage_members kvs (m\<lparr>r_Timestamp := s\<rparr>))
      else RabbitMessage_members kvs m)"

fun Unmarshal_RabbitMessage :: "payload \<Rightarrow> go_error + RabbitMessage" where
  "Unmarshal_RabbitMessage (NotJSON s) = Inl SyntaxError"
| "Unmarshal_RabbitMessage (JSON JNull) =
     Inr \<lparr>Action = [], Item = JNull, ItemID = [], r_Timestamp = []\<rparr>"
| "Unmarshal_RabbitMessage (JSON (JObject kvs)) =
     RabbitMessage_members kvs \<lparr>Action = [], Item = JNull, ItemID = [], r_Timestamp = []\<rparr>"
| "Unmarshal_RabbitMessage (JSON _) = Inl (UnmarshalTypeError ''RabbitMessage'')"

fun NotificationMessage_members ::
  "fields \<Rightarrow> NotificationMessage \<Rightarrow> go_error + NotificationMessage" where
  "NotificationMessage_members [] m = Inr m"
| "NotificationMessage_members ((k, v) # kvs) m =
     (if equalFold k ''message'' then
        (case bind_string ''message'' v (Message m) of
           Inl e \<Rightarrow> Inl e
         | Inr s \<Rightarrow> NotificationMessage_members kvs (m\<lparr>Message := s\<rparr>))
      else if equalFold k ''recipient'' then
        (case bind_string ''recipient'' v (Recipient m) of
           Inl e \<Rightarrow> Inl e
         | Inr s \<Rightarrow> NotificationMessage_members kvs (m\<lparr>Recipient := s\<rparr>))
      else if equalFold k ''timestamp'' then
        (case bind_string ''timestamp'' v (n_Timestamp m) of
           Inl e \<Rightarrow> Inl e
         | Inr s \<Rightarrow> NotificationMessage_members kvs (m\<lparr>n_Timestamp := s\<rparr>))
      else NotificationMessage_members kvs m)"

fun Unmarshal_NotificationMessage :: "payload \<Rightarrow> go_error + NotificationMessage" where
  "Unmarshal_NotificationMessage (NotJSON s) = Inl SyntaxError"
| "Unmarshal_NotificationMessage (JSON JNull) =
     Inr \<lparr>Message = [], Recipient = [], n_Timestamp = []\<rparr>"
| "Unmarshal_NotificationMessage (JSON (JObject kvs)) =
     NotificationMessage_members kvs \<lparr>Message = [], Recipient = [], n_Timestamp = []\<rparr>"
| "Unmarshal_NotificationMessage (JSON _) = Inl (UnmarshalTypeError ''NotificationMessage'')"

subsection \<open>The state of the Go service\<close>

text \<open>One constructor for each \<open>log.Printf\<close> of the consumers and processors.\<close>

datatype go_log =
    ErrorReadingKafka string
  | ErrorUnmarshalingKafka go_error
  | ReceivedKafka string string
  | ErrorSettingUpRabbit string
  | ErrorUnmarshalingRabbit go_error
  | ReceivedRabbit string string
  | ErrorSettingUpNotification string
  | ErrorUnmarshalingNotification go_error
  | ReceivedNotification string string
  | ProcessingNotification string

text \<open>
  The Kafka writer (topic \<open>go-events\<close>) and the RabbitMQ channel with what they have
  accepted, the log, the clock read by \<open>time.Now()\<close> and the source of
  \<open>primitive.NewObjectID()\<close>.
\<close>

record go_world =
  kafkaWriter :: link
  go_rabbitChannel :: link
  go_events :: "payload list"
  published :: "(string \<times> payload) list"
  logs :: "go_log list"
  go_clock :: "nat \<Rightarrow> string"
  go_ticks :: nat
  go_object_ids :: "nat \<Rightarrow> string"
  go_made_ids :: nat

definition time_Now :: "go_world \<Rightarrow> string \<times> go_world" where
  "time_Now w = (go_clock w (go_ticks w), w\<lparr>go_ticks := Suc (go_ticks w)\<rparr>)"

definition NewObjectID :: "go_world \<Rightarrow> string \<times> go_world" where
  "NewObjectID w = (go_object_ids w (go_made_ids w), w\<lparr>go_made_ids := Suc (go_made_ids w)\<rparr>)"

definition log_Printf :: "go_log \<Rightarrow> go_world \<Rightarrow> go_world" where
  "log_Printf l w = w\<lparr>logs := logs w @ [l]\<rparr>"

text \<open>\<open>kafkaWriter.WriteMessages\<close> and \<open>rabbitChannel.Publish\<close> return an error or \<open>nil\<close>.\<close>

definition WriteMessages :: "payload \<Rightarrow> go_world \<Rightarrow> string option \<times> go_world" where
  "WriteMessages v w =
     (case kafkaWriter w of
        Down msg \<Rightarrow> (Some msg, w)
      | Up \<Rightarrow> (None, w\<lparr>go_events := go_events w @ [v]\<rparr>))"

definition Publish :: "string \<Rightarrow> payload \<Rightarrow> go_world \<Rightarrow> string option \<times> go_world" where
  "Publish routing_key v w =
     (case go_rabbitChannel w of
        Down msg \<Rightarrow> (Some msg, w)
      | Up \<Rightarrow> (None, w\<lparr>published := published w @ [(routing_key, v)]\<rparr>))"

subsection \<open>Message processors\<close>

text \<open>
  \<open>json.Marshal\<close> writes the keys of a map in sorted order. The processors drop the
  error of the emission.
\<close>

definition processKafkaMessage :: "KafkaMessage \<Rightarrow> go_world \<Rightarrow> go_world" where
  "processKafkaMessage msg w =
     (let (t, w1) = time_Now w;
          response = JObject [(''original_event'', JString (Event msg)),
                              (''processed_by'', JString ''go-service''),
                              (''status'', JString ''processed''),
                              (''timestamp'', JString t)]
      in snd (WriteMessages (JSON response) w1))"

definition processRabbitMessage :: "RabbitMessage \<Rightarrow> go_world \<Rightarrow> go_world" where
  "processRabbitMessage msg w =
     (let (t, w1) = time_Now w;
          response = JObject [(''original_action'', JString (Action msg)),
                              (''processed_by'', JString ''go-service''),
                              (''status'', JString ''processed''),
                              (''timestamp'', JString t)]
      in snd (Publish ''go_events_queue'' (JSON response) w1))"

definition processNotification :: "NotificationMessage \<Rightarrow> go_world \<Rightarrow> go_world" where
  "processNotification msg w =
     (let w1 = log_Printf (ProcessingNotification (Message msg)) w;
          (oid, w2) = NewObjectID w1;
          (t, w3) = time_Now w2;
          response = JObject [(''notification_id'', JString oid),
                              (''processed_by'', JString ''go-service''),
                              (''recipient'', JString (Recipient msg)),
                              (''status'', JString ''sent''),
                              (''timestamp'', JString t)]
      in snd (Publish ''go_events_queue'' (JSON response) w3))"

subsection \<open>Consumer loops\<close>

text \<open>
  A loop is run over the finite sequence of what its channel delivers: for the Kafka
  reader the results of \<open>ReadMessage\<close>, for a queue the bodies of the deliveries.
\<close>

datatype read_result = ReadFailed string | Delivered payload

definition kafka_iteration :: "read_result \<Rightarrow> go_world \<Rightarrow> go_world" where
  "kafka_iteration r w =
     (case r of
        ReadFailed err \<Rightarrow> log_Printf (ErrorReadingKafka err) w
      | Delivered v \<Rightarrow>
          (case Unmarshal_KafkaMessage v of
             Inl err \<Rightarrow> log_Printf (ErrorUnmarshalingKafka err) w
           | Inr kafkaMsg \<Rightarrow>
               processKafkaMessage kafkaMsg
                 (log_Printf (ReceivedKafka (Event kafkaMsg) (Timestamp kafkaMsg)) w)))"

fun startKafkaConsumer :: "read_result list \<Rightarrow> go_world \<Rightarrow> go_world" where
  "startKafkaConsumer [] w = w"
| "startKafkaConsumer (r # rs) w = startKafkaConsumer rs (kafka_iteration r w)"

definition rabbit_iteration :: "payload \<Rightarrow> go_world \<Rightarrow> go_world" where
  "rabbit_iteration v w =
     (case Unmarshal_RabbitMessage v of
        Inl err \<Rightarrow> log_Printf (ErrorUnmarshalingRabbit err) w
      | Inr rabbitMsg \<Rightarrow>
          processRabbitMessage rabbitMsg
            (log_Printf (ReceivedRabbit (Action rabbitMsg) (r_Timestamp rabbitMsg)) w))"

fun rabbit_range :: "payload list \<Rightarrow> go_world \<Rightarrow> go_world" where
  "rabbit_range [] w = w"
| "rabbit_range (v # vs) w = rabbit_range vs (rabbit_iteration v w)"

text \<open>
  The first goroutine of \<open>startRabbitConsumer\<close> (queue \<open>items_queue\<close>): it returns at
  once when \<open>Consume\<close> fails.
\<close>

definition startRabbitConsumer_items :: "string option \<Rightarrow> payload list \<Rightarrow> go_world \<Rightarrow> go_world" where
  "startRabbitConsumer_items consume_err msgs w =
     (case consume_err of
        Some err \<Rightarrow> log_Printf (ErrorSettingUpRabbit err) w
      | None \<Rightarrow> rabbit_range msgs w)"

definition notification_iteration :: "payload \<Rightarrow> go_world \<Rightarrow> go_world" where
  "notification_iteration v w =
     (case Unmarshal_NotificationMessage v of
        Inl err \<Rightarrow> log_Printf (ErrorUnmarshalingNotification err) w
      | Inr notifyMsg \<Rightarrow>
          processNotification notifyMsg
            (log_Printf (ReceivedNotification (Message notifyMsg) (Recipient notifyMsg)) w))"

fun notification_range :: "payload list \<Rightarrow> go_world \<Rightarrow> go_world" where
  "notification_range [] w = w"
| "notification_range (v # vs) w = notification_range vs (notification_iteration v w)"

text \<open>The second goroutine of \<open>startRabbitConsumer\<close> (queue \<open>notifications_queue\<close>).\<close>

definition startRabbitConsumer_notifications ::
  "string option \<Rightarrow> payload list \<Rightarrow> go_world \<Rightarrow> go_world" where
  "startRabbitConsumer_notifications consume_err msgs w =
     (case consume_err of
        Some err \<Rightarrow> log_Printf (ErrorSettingUpNotification err) w
      | None \<Rightarrow> notification_range msgs w)"

subsection \<open>\<open>POST /api/events\<close>\<close>

text \<open>
  \<open>c.ShouldBindJSON(&requestBody)\<close> with \<open>requestBody\<close> a \<open>map[string]interface{}\<close>.
  The binding decodes the first JSON value of the request body and does not read past
  it: the body is \<open>JSON j\<close> when that value is \<open>j\<close>, and \<open>NotJSON\<close> when there is none.
  \<open>null\<close> leaves the map \<open>nil\<close> (\<open>None\<close>); an object fills it, unless one of its numbers
  does not fit a \<open>float64\<close>, which is an \<open>UnmarshalTypeError\<close>, as is any other
  document.
\<close>

fun ShouldBindJSON :: "payload \<Rightarrow> go_error + fields option" where
  "ShouldBindJSON (NotJSON s) = Inl SyntaxError"
| "ShouldBindJSON (JSON JNull) = Inr None"
| "ShouldBindJSON (JSON (JObject kvs)) =
     (if fits_float64 (JObject kvs) then Inr (Some kvs) else Inl (UnmarshalTypeError ''number''))"
| "ShouldBindJSON (JSON _) = Inl (UnmarshalTypeError ''map[string]interface {}'')"

text \<open>
  \<open>json.Marshal\<close> of the value decoded into an \<open>interface{}\<close>: an object has become a
  map, so each key is written once, with the value given last, and the keys are written
  in sorted order.
\<close>

fun put_member :: "string \<Rightarrow> json \<Rightarrow> fields \<Rightarrow> fields" where
  "put_member k v [] = [(k, v)]"
| "put_member k v ((k', v') # rest) =
     (if k < k' then (k, v) # (k', v') # rest
      else if k = k' then (k, v) # rest
      else (k', v') # put_member k v rest)"

fun json_Marshal :: "json \<Rightarrow> json" where
  "json_Marshal (JArray xs) = JArray (map json_Marshal xs)"
| "json_Marshal (JObject kvs) = JObject (fold (\<lambda>(k, v). put_member k (json_Marshal v)) kvs [])"
| "json_Marshal j = j"

definition sendEvent :: "payload \<Rightarrow> go_world \<Rightarrow> response \<times> go_world" where
  "sendEvent request w =
     (case ShouldBindJSON request of
        Inl err \<Rightarrow>
          (\<lparr>status = 400, reply = JObject [(''error'', JString ''Invalid request body'')]\<rparr>, w)
      | Inr requestBody \<Rightarrow>
          (let (t, w1) = time_Now w;
               event = JObject [(''data'', (case requestBody of
                                              None \<Rightarrow> JNull
                                            | Some kvs \<Rightarrow> json_Marshal (JObject kvs))),
                                (''event'', JString ''custom_event''),
                                (''source'', JString ''go-service''),
                                (''timestamp'', JString t)];
               w2 = snd (WriteMessages (JSON event) w1);
               w3 = snd (Publish ''go_events_queue'' (JSON event) w2)
           in (\<lparr>status = 200,
                reply = JObject [(''message'', JString ''Event sent successfully''),
                                 (''success'', JBool True)]\<rparr>, w3)))"

subsection \<open>Startup of the Go service\<close>

text \<open>
  What the collaborators answer to each step: \<open>None\<close> when the step succeeds, the text
  of the error otherwise. The run of \<open>main\<close> is the outcome together with the steps it
  took, in order.
\<close>

record go_env =
  mongo_Connect :: "string option"
  mongo_Ping :: "string option"
  amqp_Dial :: "string option"
  conn_Channel :: "string option"
  QueueDeclare :: "string \<Rightarrow> string option"

datatype step =
    MongoConnect
  | MongoPing
  | KafkaNewReader
  | KafkaNewWriter
  | AmqpDial
  | AmqpChannel
  | DeclareQueue string
  | StartKafkaConsumer
  | StartRabbitConsumer
  | ListenAndServe

definition connectMongoDB :: "go_env \<Rightarrow> string option \<times> step list" where
  "connectMongoDB env =
     (case mongo_Connect env of
        Some err \<Rightarrow> (Some (''failed to connect to MongoDB: '' @ err), [MongoConnect])
      | None \<Rightarrow>
          (case mongo_Ping env of
             Some err \<Rightarrow> (Some (''failed to ping MongoDB: '' @ err), [MongoConnect, MongoPing])
           | None \<Rightarrow> (None, [MongoConnect, MongoPing])))"

text \<open>\<open>connectKafka\<close> builds the reader and the writer and always returns \<open>nil\<close>.\<close>

definition connectKafka :: "string option \<times> step list" where
  "connectKafka = (None, [KafkaNewReader, KafkaNewWriter])"

fun declare_queues :: "go_env \<Rightarrow> string list \<Rightarrow> string option \<times> step list" where
  "declare_queues env [] = (None, [])"
| "declare_queues env (queue # queues) =
     (case QueueDeclare env queue of
        Some err \<Rightarrow> (Some (''failed to declare queue '' @ queue @ '': '' @ err), [DeclareQueue queue])
      | None \<Rightarrow> (let (r, steps) = declare_queues env queues in (r, DeclareQueue queue # steps)))"

definition connectRabbitMQ :: "go_env \<Rightarrow> string option \<times> step list" where
  "connectRabbitMQ env =
     (case amqp_Dial env of
        Some err \<Rightarrow> (Some (''failed to connect to RabbitMQ: '' @ err), [AmqpDial])
      | None \<Rightarrow>
          (case conn_Channel env of
             Some err \<Rightarrow> (Some (''failed to open RabbitMQ channel: '' @ err), [AmqpDial, AmqpChannel])
           | None \<Rightarrow>
               (let (r, steps) =
                      declare_queues env [''items_queue'', ''notifications_queue'', ''go_events_queue'']
                in (r, [AmqpDial, AmqpChannel] @ steps))))"

text \<open>\<open>main\<close>: \<open>log.Fatalf\<close> ends the process.\<close>

definition main :: "go_env \<Rightarrow> process \<times> step list" where
  "main env =
     (case connectMongoDB env of
        (Some err, s1) \<Rightarrow> (Terminated (''Failed to connect to MongoDB: '' @ err), s1)
      | (None, s1) \<Rightarrow>
          (case connectKafka of
             (Some err, s2) \<Rightarrow> (Terminated (''Failed to connect to Kafka: '' @ err), s1 @ s2)
           | (None, s2) \<Rightarrow>
               (case connectRabbitMQ env of
                  (Some err, s3) \<Rightarrow>
                    (Terminated (''Failed to connect to RabbitMQ: '' @ err), s1 @ s2 @ s3)
                | (None, s3) \<Rightarrow>
                    (Serving, s1 @ s2 @ s3 @ [StartKafkaConsumer, StartRabbitConsumer, ListenAndServe]))))"

section \<open>Notions used in the statements\<close>

text \<open>
  Two states of the Node API have the same store side when they agree on the collection,
  on what the store decides by itself, on the clock and on the source of identifiers; the
  brokers, what has been emitted and the console are left open.
\<close>

definition same_store :: "node_world \<Rightarrow> node_world \<Rightarrow> bool" where
  "same_store w w' \<longleftrightarrow>
     items w = items w' \<and> store_error w = store_error w' \<and>
     object_id_of w = object_id_of w' \<and> caster w = caster w' \<and>
     apply_operators w = apply_operators w' \<and> clock w = clock w' \<and>
     ticks w = ticks w' \<and> object_ids w = object_ids w' \<and> made_ids w = made_ids w'"

text \<open>
  An update or a deletion fails when the store raises an error or finds no document.
\<close>

definition mutation_failed :: "js_error + fields option \<Rightarrow> bool" where
  "mutation_failed r = (case r of Inr (Some doc) \<Rightarrow> False | _ \<Rightarrow> True)"

text \<open>
  What a consumer loop leaves in the log: the lines of the messages it received and
  handed to its processor, and the number of messages it skipped on a decoding error.
\<close>

fun is_unmarshal_error :: "go_log \<Rightarrow> bool" where
  "is_unmarshal_error (ErrorUnmarshalingKafka e) = True"
| "is_unmarshal_error (ErrorUnmarshalingRabbit e) = True"
| "is_unmarshal_error (ErrorUnmarshalingNotification e) = True"
| "is_unmarshal_error _ = False"

fun is_received :: "go_log \<Rightarrow> bool" where
  "is_received (ReceivedKafka e t) = True"
| "is_received (ReceivedRabbit a t) = True"
| "is_received (ReceivedNotification m r) = True"
| "is_received _ = False"

definition skipped :: "go_world \<Rightarrow> nat" where
  "skipped w = length (filter is_unmarshal_error (logs w))"

definition received :: "go_world \<Rightarrow> go_log list" where
  "received w = filter is_received (logs w)"

definition received_kafka :: "payload \<Rightarrow> go_log" where
  "received_kafka v = (let m = projr (Unmarshal_KafkaMessage v) in ReceivedKafka (Event m) (Timestamp m))"

definition received_rabbit :: "payload \<Rightarrow> go_log" where
  "received_rabbit v = (let m = projr (Unmarshal_RabbitMessage v) in ReceivedRabbit (Action m) (r_Timestamp m))"

definition received_notification :: "payload \<Rightarrow> go_log" where
  "received_notification v =
     (let m = projr (Unmarshal_NotificationMessage v) in ReceivedNotification (Message m) (Recipient m))"

text \<open>
  The messages of the three channels in the shape their senders give them, each with the
  line the loop logs on its receipt: a domain event (event, data, timestamp) as
  \<open>publishItemEvent\<close> writes it to \<open>item-events\<close>; a queue action with an item or with
  the identifier of a deleted item; a notification (message, recipient, timestamp).
\<close>

fun event_payload :: "string \<times> json \<times> string \<Rightarrow> payload" where
  "event_payload (e, d, t) = kafka_value e d t"

fun event_line :: "string \<times> json \<times> string \<Rightarrow> go_log" where
  "event_line (e, d, t) = ReceivedKafka e t"

fun event_fits :: "string \<times> json \<times> string \<Rightarrow> bool" where
  "event_fits (e, d, t) = fits_float64 d"

datatype queue_action = ItemAction string json string | DeletedAction string string string

fun action_payload :: "queue_action \<Rightarrow> payload" where
  "action_payload (ItemAction a d t) =
     JSON (JObject [(''action'', JString a), (''item'', d), (''timestamp'', JString t)])"
| "action_payload (DeletedAction a i t) =
     JSON (JObject [(''action'', JString a), (''itemId'', JString i), (''timestamp'', JString t)])"

fun action_line :: "queue_action \<Rightarrow> go_log" where
  "action_line (ItemAction a d t) = ReceivedRabbit a t"
| "action_line (DeletedAction a i t) = ReceivedRabbit a t"

fun action_fits :: "queue_action \<Rightarrow> bool" where
  "action_fits (ItemAction a d t) = fits_float64 d"
| "action_fits (DeletedAction a i t) = True"

fun notice_payload :: "string \<times> string \<times> string \<Rightarrow> payload" where
  "notice_payload (m, r, t) =
     JSON (JObject [(''message'', JString m), (''recipient'', JString r), (''timestamp'', JString t)])"

fun notice_line :: "string \<times> string \<times> string \<Rightarrow> go_log" where
  "notice_line (m, r, t) = ReceivedNotification m r"

text \<open>
  A message that \<open>json.Unmarshal\<close> refuses for a struct whose string fields have the
  given tags: text that is not JSON, a JSON value that is neither an object nor \<open>null\<close>,
  or an object with a member that names a string field and holds neither a string nor
  \<open>null\<close>.
\<close>

fun string_or_null :: "json \<Rightarrow> bool" where
  "string_or_null JNull = True"
| "string_or_null (JString s) = True"
| "string_or_null _ = False"

definition rejected :: "string list \<Rightarrow> payload \<Rightarrow> bool" where
  "rejected string_tags v =
     (case v of
        NotJSON s \<Rightarrow> True
      | JSON JNull \<Rightarrow> False
      | JSON (JObject kvs) \<Rightarrow>
          list_ex (\<lambda>(k, x). list_ex (equalFold k) string_tags \<and> \<not> string_or_null x) kvs
      | JSON _ \<Rightarrow> True)"

section \<open>Sample inputs\<close>

text \<open>
  A store that takes the 24 hexadecimal digits of an identifier without regard to case,
  converts nothing and ignores operators; the Node API before its services are
  initialised, and once they are; a store that enforces the schema's \<open>required\<close> name;
  brokers that accept every step.
\<close>

definition hex_object_id :: "string \<Rightarrow> string option" where
  "hex_object_id s =
     (if length s = 24 \<and> list_all (\<lambda>c. c \<in> set ''0123456789abcdefABCDEF'') s
      then Some (map to_lower s) else None)"

definition boot_world :: node_world where
  "boot_world =
     \<lparr>items = [], store_error = (\<lambda>op. None), object_id_of = hex_object_id,
      caster = (\<lambda>path v. v), apply_operators = (\<lambda>update doc. doc),
      producer = Down ''not connected'',
      rabbitChannel = None, kafka_log = [], rabbit_queues = [], console = [],
      clock = (\<lambda>n. ''2024-05-01T10:00:00.000Z''), ticks = 0,
      object_ids = (\<lambda>n. ''6631f0a2c4d5e6f708091a2b''), made_ids = 0\<rparr>"

definition sample_world :: node_world where
  "sample_world = boot_world\<lparr>producer := Up, rabbitChannel := Some Up\<rparr>"

definition name_required :: "store_op \<Rightarrow> js_error option" where
  "name_required op =
     (case op of
        Save doc \<Rightarrow>
          (case map_of doc ''name'' of
             None \<Rightarrow> Some (JsError ''Item validation failed: name: Path name is required.'')
           | Some v \<Rightarrow> None)
      | _ \<Rightarrow> None)"

definition widget :: fields where
  "widget =
     [(''name'', JString ''Widget''), (''price'', JNumber 5), (''category'', JString ''Tools''),
      (''_id'', JString ''6631f0a2c4d5e6f708091a2b''),
      (''createdAt'', JString ''2024-04-30T08:00:00.000Z''),
      (''updatedAt'', JString ''2024-04-30T08:00:00.000Z''), (''__v'', JNumber 0)]"


definition sample_node_env :: node_env where
  "sample_node_env =
     \<lparr>producer_connect = None, consumer_connect = None, consumer_subscribe = None,
      consumer_run = None, amqp_connect = None, createChannel = None,
      assertQueue = (\<lambda>q. None)\<rparr>"

definition sample_go_env :: go_env where
  "sample_go_env =
     \<lparr>mongo_Connect = None, mongo_Ping = None, amqp_Dial = None, conn_Channel = None,
      QueueDeclare = (\<lambda>q. None)\<rparr>"

definition sample_go_world :: go_world where
  "sample_go_world =
     \<lparr>kafkaWriter = Up, go_rabbitChannel = Up, go_events = [], published = [], logs = [],
      go_clock = (\<lambda>n. ''2024-05-01T10:00:00Z''), go_ticks = 0,
      go_object_ids = (\<lambda>n. ''6631f0a2c4d5e6f708091a2c''), go_made_ids = 0\<rparr>"

section \<open>Publishing item events\<close>

lemmas publish_defs = publishItemEvent_def publish_try_def new_Date_def producer_send_def
  sendToQueue_def console_log_def console_error_def

lemma publish_returns: "fst (publishItemEvent event data w) = Inr ()"
  by (simp add: publishItemEvent_def split: prod.splits sum.splits)

lemma publish_not_Inl [simp]: "publishItemEvent event data w \<noteq> (Inl e, w')"
  using publish_returns [of event data w] by auto


text \<open>
  Claim C1, as amended. \<open>publishItemEvent\<close> makes the two emissions in sequence inside one
  \<open>try\<close> block, the log emission first. When the queue emission fails (the channel
  throws), the message already sent to the topic \<open>item-events\<close> stays in the log and
  nothing is added to a queue. When the log emission fails (the producer rejects), the
  queue emission is not attempted: neither the log nor any queue receives a message. In
  both cases the console receives one entry, the error with the line
  \<open>Error publishing ... event:\<close>, and the function returns normally. (With the channel
  down, the error is the channel's unless reading \<open>data.id\<close> has thrown before.)
\<close>

theorem publish_emissions_in_sequence:
  "fst (publishItemEvent event data (w\<lparr>producer := Up, rabbitChannel := Some (Down msg)\<rparr>)) = Inr () \<and>
   kafka_log (snd (publishItemEvent event data (w\<lparr>producer := Up, rabbitChannel := Some (Down msg)\<rparr>)))
     = kafka_log w @ [(''item-events'', kafka_value event data (clock w (ticks w)))] \<and>
   rabbit_queues (snd (publishItemEvent event data (w\<lparr>producer := Up, rabbitChannel := Some (Down msg)\<rparr>)))
     = rabbit_queues w \<and>
   console (snd (publishItemEvent event data (w\<lparr>producer := Up, rabbitChannel := Some (Down msg)\<rparr>)))
     = console w @
       [ConsoleError (''Error publishing '' @ event @ '' event:'')
          (case item_part event data of Inl e \<Rightarrow> e | Inr part \<Rightarrow> JsError msg)] \<and>
   fst (publishItemEvent event data (w\<lparr>producer := Down msg\<rparr>)) = Inr () \<and>
   kafka_log (snd (publishItemEvent event data (w\<lparr>producer := Down msg\<rparr>))) = kafka_log w \<and>
   rabbit_queues (snd (publishItemEvent event data (w\<lparr>producer := Down msg\<rparr>))) = rabbit_queues w \<and>
   console (snd (publishItemEvent event data (w\<lparr>producer := Down msg\<rparr>)))
     = console w @ [ConsoleError (''Error publishing '' @ event @ '' event:'') (JsError msg)]"
  by (cases "item_part event data") (simp_all add: publish_defs)

text \<open>
  Claim C1 as stated fails in its second half: with the producer down and the channel
  open, the log emission fails and no queue emission occurs.
\<close>

theorem log_failure_skips_queue_emission:
  "producer (sample_world\<lparr>producer := Down ''broker unreachable''\<rparr>) = Down ''broker unreachable'' \<and>
   rabbitChannel (sample_world\<lparr>producer := Down ''broker unreachable''\<rparr>) = Some Up \<and>
   kafka_log (snd (publishItemEvent ''item_created'' (JObject widget)
                     (sample_world\<lparr>producer := Down ''broker unreachable''\<rparr>))) = [] \<and>
   rabbit_queues (snd (publishItemEvent ''item_created'' (JObject widget)
                         (sample_world\<lparr>producer := Down ''broker unreachable''\<rparr>))) = []"
  by (simp add: publish_defs sample_world_def boot_world_def)

text \<open>
  Claim C3. The queue action that \<open>publishItemEvent\<close> sends to \<open>items_queue\<close>: for a
  deleted item (the handler passes \<open>{ id }\<close>) it carries \<open>action\<close>, \<open>itemId\<close> and
  \<open>timestamp\<close> and no \<open>item\<close>; for a created or updated item it carries \<open>action\<close>,
  \<open>item\<close> and \<open>timestamp\<close> and no \<open>itemId\<close>. Decoded by the Go service into a
  \<open>RabbitMessage\<close>, the first has \<open>ItemID\<close> set and \<open>Item\<close> nil, the second has
  \<open>Item\<close> set and \<open>ItemID\<close> empty.
\<close>

theorem queue_action_item_or_itemId:
  "rabbit_queues (snd (publishItemEvent ''item_deleted'' (JObject [(''id'', JString i)])
                         (w\<lparr>producer := Up, rabbitChannel := Some Up\<rparr>)))
     = rabbit_queues w @
       [(''items_queue'',
         JSON (JObject [(''action'', JString ''deleted''), (''itemId'', JString i),
                        (''timestamp'', JString (clock w (Suc (ticks w))))]))] \<and>
   rabbit_queues (snd (publishItemEvent ''item_created'' (JObject doc)
                         (w\<lparr>producer := Up, rabbitChannel := Some Up\<rparr>)))
     = rabbit_queues w @
       [(''items_queue'',
         JSON (JObject [(''action'', JString ''created''), (''item'', JObject doc),
                        (''timestamp'', JString (clock w (Suc (ticks w))))]))] \<and>
   rabbit_queues (snd (publishItemEvent ''item_updated'' (JObject doc)
                         (w\<lparr>producer := Up, rabbitChannel := Some Up\<rparr>)))
     = rabbit_queues w @
       [(''items_queue'',
         JSON (JObject [(''action'', JString ''updated''), (''item'', JObject doc),
                        (''timestamp'', JString (clock w (Suc (ticks w))))]))] \<and>
   Unmarshal_RabbitMessage
     (JSON (JObject [(''action'', JString ''deleted''), (''itemId'', JString i),
                     (''timestamp'', JString ts)]))
     = Inr \<lparr>Action = ''deleted'', Item = JNull, ItemID = i, r_Timestamp = ts\<rparr> \<and>
   Unmarshal_RabbitMessage
     (JSON (JObject [(''action'', JString a), (''item'', JObject doc), (''timestamp'', JString ts)]))
     = Inr \<lparr>Action = a, Item = JObject doc, ItemID = [], r_Timestamp = ts\<rparr>"
  by (simp add: publish_defs item_part_def rabbitMessage_def stringify_object_def
        List.map_filter_simps equalFold_def to_lower_def)

text \<open>
  Claim C4. The value that \<open>publishItemEvent\<close> writes to the topic \<open>item-events\<close> for
  an event name, a payload and a timestamp decodes, in the Kafka consumer of the Go
  service, to the \<open>KafkaMessage\<close> with that event name, that payload and that timestamp.
\<close>

theorem kafka_message_round_trip:
  "Unmarshal_KafkaMessage (kafka_value event data ts)
     = Inr \<lparr>Event = event, Data = data, Timestamp = ts\<rparr>"
  by (simp add: kafka_value_def stringify_object_def List.map_filter_simps equalFold_def
        to_lower_def)

section \<open>The mutating handlers\<close>

lemma post_response:
  "fst (post_api_items b w) =
     (case fst (Item_save (fst (new_Item b w)) (snd (new_Item b w))) of
        Inl e \<Rightarrow> failure 400 (message e)
      | Inr savedItem \<Rightarrow>
          \<lparr>status = 201, reply = JObject [(''success'', JBool True), (''data'', JObject savedItem)]\<rparr>)"
  by (simp add: post_api_items_def split: prod.splits sum.splits)

lemma put_response:
  "fst (put_api_items_id i b w) =
     (case fst (findByIdAndUpdate i (AList.update ''updatedAt'' (JString (fst (new_Date w))) b) (snd (new_Date w))) of
        Inl e \<Rightarrow> failure 400 (message e)
      | Inr None \<Rightarrow> failure 404 ''Item not found''
      | Inr (Some updatedItem) \<Rightarrow>
          \<lparr>status = 200, reply = JObject [(''success'', JBool True), (''data'', JObject updatedItem)]\<rparr>)"
  by (simp add: put_api_items_id_def split: prod.splits sum.splits option.splits)

lemma delete_response:
  "fst (delete_api_items_id i w) =
     (case fst (findByIdAndDelete i w) of
        Inl e \<Rightarrow> failure 500 (message e)
      | Inr None \<Rightarrow> failure 404 ''Item not found''
      | Inr (Some deletedItem) \<Rightarrow>
          \<lparr>status = 200, reply = JObject [(''success'', JBool True),
                                           (''message'', JString ''Item deleted successfully'')]\<rparr>)"
  by (simp add: delete_api_items_id_def split: prod.splits sum.splits option.splits)

lemma same_store_brokers: "same_store (w\<lparr>producer := p, rabbitChannel := c\<rparr>) w"
  by (simp add: same_store_def)

lemma new_Date_same:
  "same_store w w' \<Longrightarrow> fst (new_Date w) = fst (new_Date w') \<and> same_store (snd (new_Date w)) (snd (new_Date w'))"
  by (simp add: same_store_def new_Date_def)

lemma default_now_same:
  "same_store w w' \<Longrightarrow>
   fst (default_now path doc w) = fst (default_now path doc w') \<and>
   same_store (snd (default_now path doc w)) (snd (default_now path doc w'))"
  by (cases "map_of doc path") (simp_all add: default_now_def new_Date_def same_store_def)

lemma new_ObjectId_same:
  "same_store w w' \<Longrightarrow>
   fst (new_ObjectId w) = fst (new_ObjectId w') \<and> same_store (snd (new_ObjectId w)) (snd (new_ObjectId w'))"
  by (simp add: same_store_def new_ObjectId_def)

lemma cast_value_same: "same_store w w' \<Longrightarrow> cast_value w = cast_value w'"
  by (intro ext) (simp add: cast_value_def same_store_def)

lemma cast_fields_same:
  assumes "same_store w w'"
  shows "cast_fields w b = cast_fields w' b"
  unfolding cast_fields_def cast_value_same [OF assms] by (rule refl)

lemma new_Item_same:
  assumes "same_store w w'"
  shows "fst (new_Item b w) = fst (new_Item b w') \<and> same_store (snd (new_Item b w)) (snd (new_Item b w'))"
proof -
  let ?r = "cast_fields w' b @ [(''_id'', JString (fst (new_ObjectId w')))]"
  have 1: "fst (new_ObjectId w) = fst (new_ObjectId w')"
    and 2: "same_store (snd (new_ObjectId w)) (snd (new_ObjectId w'))"
    using new_ObjectId_same [OF assms] by simp_all
  have 3: "fst (default_now ''createdAt'' ?r (snd (new_ObjectId w)))
           = fst (default_now ''createdAt'' ?r (snd (new_ObjectId w')))"
    and 4: "same_store (snd (default_now ''createdAt'' ?r (snd (new_ObjectId w))))
                       (snd (default_now ''createdAt'' ?r (snd (new_ObjectId w'))))"
    using default_now_same [OF 2] by simp_all
  show ?thesis
    using 1 3 default_now_same [OF 4] cast_fields_same [OF assms, of b]
    by (simp add: new_Item_def split_beta)
qed

lemma Item_save_same:
  "same_store w w' \<Longrightarrow> fst (Item_save item w) = fst (Item_save item w')"
  by (cases "store_error w' (Save (snd item))") (simp_all add: Item_save_def same_store_def Let_def)

lemma set_update_same:
  assumes "same_store w w'"
  shows "set_update w u = set_update w' u"
  unfolding set_update_def cast_value_same [OF assms] by (rule refl)

lemma findByIdAndUpdate_same:
  "same_store w w' \<Longrightarrow> fst (findByIdAndUpdate i u w) = fst (findByIdAndUpdate i u w')"
  using set_update_same [of w w' u]
  by (simp add: findByIdAndUpdate_def same_store_def Let_def split: option.splits)

lemma findByIdAndDelete_same:
  "same_store w w' \<Longrightarrow> fst (findByIdAndDelete i w) = fst (findByIdAndDelete i w')"
  by (simp add: findByIdAndDelete_def same_store_def split: option.splits)

lemma post_same: "same_store w w' \<Longrightarrow> fst (post_api_items b w) = fst (post_api_items b w')"
  using new_Item_same [of w w' b] Item_save_same [of "snd (new_Item b w)" "snd (new_Item b w')"]
  by (simp add: post_response)

lemma put_same: "same_store w w' \<Longrightarrow> fst (put_api_items_id i b w) = fst (put_api_items_id i b w')"
  using new_Date_same [of w w'] findByIdAndUpdate_same [of "snd (new_Date w)" "snd (new_Date w')"]
  by (simp add: put_response)

lemma delete_same: "same_store w w' \<Longrightarrow> fst (delete_api_items_id i w) = fst (delete_api_items_id i w')"
  using findByIdAndDelete_same [of w w'] by (simp add: delete_response)

text \<open>
  Claim C2. \<open>publishItemEvent\<close> always returns normally, and the response of each
  mutating handler is the same whatever the state of the Kafka producer and of the
  RabbitMQ channel: it is decided by the record store alone.
\<close>

theorem emission_errors_never_reach_caller:
  "fst (publishItemEvent event data w) = Inr () \<and>
   fst (post_api_items b (w\<lparr>producer := p, rabbitChannel := c\<rparr>)) = fst (post_api_items b w) \<and>
   fst (put_api_items_id i b (w\<lparr>producer := p, rabbitChannel := c\<rparr>)) = fst (put_api_items_id i b w) \<and>
   fst (delete_api_items_id i (w\<lparr>producer := p, rabbitChannel := c\<rparr>)) = fst (delete_api_items_id i w)"
  using post_same [OF same_store_brokers] put_same [OF same_store_brokers]
    delete_same [OF same_store_brokers] publish_returns
  by blast

lemma new_Date_emits:
  "kafka_log (snd (new_Date w)) = kafka_log w" "rabbit_queues (snd (new_Date w)) = rabbit_queues w"
  by (simp_all add: new_Date_def)

lemma default_now_emits:
  "kafka_log (snd (default_now path doc w)) = kafka_log w"
  "rabbit_queues (snd (default_now path doc w)) = rabbit_queues w"
  by (cases "map_of doc path"; simp add: default_now_def new_Date_def)+

lemma new_Item_emits:
  "kafka_log (snd (new_Item b w)) = kafka_log w" "rabbit_queues (snd (new_Item b w)) = rabbit_queues w"
  by (simp_all add: new_Item_def split_beta default_now_emits new_ObjectId_def)

lemma update_raises:
  "store_error w (FindByIdAndUpdate i u) = Some e \<Longrightarrow> findByIdAndUpdate i u w = (Inl e, w)"
  "store_error w (FindByIdAndUpdate i u) = None \<Longrightarrow> object_id_of w i = None \<Longrightarrow>
   findByIdAndUpdate i u w = (Inl (JsError (''Cast to ObjectId failed for value '' @ i)), w)"
  "store_error w (FindByIdAndUpdate i u) = None \<Longrightarrow> object_id_of w i = Some oid \<Longrightarrow>
   map_of (items w) oid = None \<Longrightarrow> findByIdAndUpdate i u w = (Inr None, w)"
  by (simp_all add: findByIdAndUpdate_def)

lemma update_found:
  "store_error w (FindByIdAndUpdate i u) = None \<Longrightarrow> object_id_of w i = Some oid \<Longrightarrow>
   map_of (items w) oid = Some doc \<Longrightarrow>
   findByIdAndUpdate i u w =
     (Inr (Some (if list_ex (\<lambda>(k, v). is_operator k) u then apply_operators w u doc
                 else AList.merge doc (set_update w u))),
      w\<lparr>items := AList.update oid
                   (if list_ex (\<lambda>(k, v). is_operator k) u then apply_operators w u doc
                    else AList.merge doc (set_update w u)) (items w)\<rparr>)"
  by (simp add: findByIdAndUpdate_def Let_def)

lemma update_failed_cases:
  assumes "mutation_failed (fst (findByIdAndUpdate i u w))"
  shows "(\<exists>e. findByIdAndUpdate i u w = (Inl e, w)) \<or> findByIdAndUpdate i u w = (Inr None, w)"
proof (cases "store_error w (FindByIdAndUpdate i u)")
  case (Some e)
  then show ?thesis by (simp add: update_raises)
next
  case None
  show ?thesis
  proof (cases "object_id_of w i")
    case n: None
    with None show ?thesis by (simp add: update_raises)
  next
    case (Some oid)
    show ?thesis
    proof (cases "map_of (items w) oid")
      case m: None
      with None Some show ?thesis by (simp add: update_raises)
    next
      case (Some doc)
      with None \<open>object_id_of w i = Some oid\<close> assms show ?thesis
        by (simp add: update_found mutation_failed_def)
    qed
  qed
qed

lemma delete_failed_cases:
  assumes "mutation_failed (fst (findByIdAndDelete i w))"
  shows "(\<exists>e. findByIdAndDelete i w = (Inl e, w)) \<or> findByIdAndDelete i w = (Inr None, w)"
proof (cases "store_error w (FindByIdAndDelete i)")
  case (Some e)
  then show ?thesis by (simp add: findByIdAndDelete_def)
next
  case None
  show ?thesis
  proof (cases "object_id_of w i")
    case n: None
    with None show ?thesis by (simp add: findByIdAndDelete_def)
  next
    case (Some oid)
    show ?thesis
    proof (cases "map_of (items w) oid")
      case m: None
      with None Some show ?thesis by (simp add: findByIdAndDelete_def)
    next
      case (Some doc)
      with None \<open>object_id_of w i = Some oid\<close> assms show ?thesis
        by (simp add: findByIdAndDelete_def mutation_failed_def)
    qed
  qed
qed

lemma post_failed:
  assumes "fst (Item_save (fst (new_Item b w)) (snd (new_Item b w))) = Inl e"
  shows "post_api_items b w = (failure 400 (message e), snd (new_Item b w))"
proof -
  have "Item_save (fst (new_Item b w)) (snd (new_Item b w)) = (Inl e, snd (new_Item b w))"
    using assms by (cases "store_error (snd (new_Item b w)) (Save (snd (fst (new_Item b w))))")
      (simp_all add: Item_save_def Let_def)
  then show ?thesis by (simp add: post_api_items_def split_beta)
qed

lemma put_failed:
  assumes "mutation_failed (fst (findByIdAndUpdate i u (snd (new_Date w))))"
    and "u = AList.update ''updatedAt'' (JString (fst (new_Date w))) b"
  shows "status (fst (put_api_items_id i b w)) \<in> {400, 404}
       \<and> snd (put_api_items_id i b w) = snd (new_Date w)"
  using update_failed_cases [OF assms(1)] assms(2)
  by (auto simp: put_api_items_id_def split_beta failure_def)

lemma delete_failed:
  assumes "mutation_failed (fst (findByIdAndDelete i w))"
  shows "status (fst (delete_api_items_id i w)) \<in> {404, 500} \<and> snd (delete_api_items_id i w) = w"
  using delete_failed_cases [OF assms]
  by (auto simp: delete_api_items_id_def failure_def)

text \<open>
  Claim C8. When the store operation of a mutating handler fails (\<open>save\<close> raises; the
  update or the deletion raises or finds no document), the response has status 400
  (create), 400 or 404 (update), 404 or 500 (delete), and nothing is added to the log
  topics or to the queues.
\<close>

theorem failed_mutation_publishes_nothing:
  "(isl (fst (Item_save (fst (new_Item b w)) (snd (new_Item b w)))) \<longrightarrow>
      status (fst (post_api_items b w)) = 400 \<and>
      kafka_log (snd (post_api_items b w)) = kafka_log w \<and>
      rabbit_queues (snd (post_api_items b w)) = rabbit_queues w) \<and>
   (mutation_failed (fst (findByIdAndUpdate i
        (AList.update ''updatedAt'' (JString (fst (new_Date w))) b) (snd (new_Date w)))) \<longrightarrow>
      status (fst (put_api_items_id i b w)) \<in> {400, 404} \<and>
      kafka_log (snd (put_api_items_id i b w)) = kafka_log w \<and>
      rabbit_queues (snd (put_api_items_id i b w)) = rabbit_queues w) \<and>
   (mutation_failed (fst (findByIdAndDelete i w)) \<longrightarrow>
      status (fst (delete_api_items_id i w)) \<in> {404, 500} \<and>
      kafka_log (snd (delete_api_items_id i w)) = kafka_log w \<and>
      rabbit_queues (snd (delete_api_items_id i w)) = rabbit_queues w)"
proof (intro conjI impI)
  assume "isl (fst (Item_save (fst (new_Item b w)) (snd (new_Item b w))))"
  then obtain e where "fst (Item_save (fst (new_Item b w)) (snd (new_Item b w))) = Inl e"
    by (auto simp: isl_def)
  from post_failed [OF this]
  show "status (fst (post_api_items b w)) = 400"
    and "kafka_log (snd (post_api_items b w)) = kafka_log w"
    and "rabbit_queues (snd (post_api_items b w)) = rabbit_queues w"
    by (simp_all add: failure_def new_Item_emits)
next
  assume "mutation_failed (fst (findByIdAndUpdate i
        (AList.update ''updatedAt'' (JString (fst (new_Date w))) b) (snd (new_Date w))))"
  from put_failed [OF this refl]
  show "status (fst (put_api_items_id i b w)) \<in> {400, 404}"
    and "kafka_log (snd (put_api_items_id i b w)) = kafka_log w"
    and "rabbit_queues (snd (put_api_items_id i b w)) = rabbit_queues w"
    by (simp_all add: new_Date_emits)
next
  assume "mutation_failed (fst (findByIdAndDelete i w))"
  from delete_failed [OF this]
  show "status (fst (delete_api_items_id i w)) \<in> {404, 500}"
    and "kafka_log (snd (delete_api_items_id i w)) = kafka_log w"
    and "rabbit_queues (snd (delete_api_items_id i w)) = rabbit_queues w"
    by simp_all
qed

text \<open>
  A store that enforces the required name rejects the creation of an item without a
  name, and holds no document for the identifier of the update and of the deletion.
\<close>

theorem failed_mutation_publishes_nothing_witness:
  "isl (fst (Item_save (fst (new_Item [] (sample_world\<lparr>store_error := name_required\<rparr>)))
                       (snd (new_Item [] (sample_world\<lparr>store_error := name_required\<rparr>))))) \<and>
   status (fst (post_api_items [] (sample_world\<lparr>store_error := name_required\<rparr>))) = 400 \<and>
   kafka_log (snd (post_api_items [] (sample_world\<lparr>store_error := name_required\<rparr>))) = [] \<and>
   rabbit_queues (snd (post_api_items [] (sample_world\<lparr>store_error := name_required\<rparr>))) = [] \<and>
   status (fst (put_api_items_id ''6631f0a2c4d5e6f708091a2b'' []
                  (sample_world\<lparr>store_error := name_required\<rparr>))) \<in> {400, 404} \<and>
   kafka_log (snd (put_api_items_id ''6631f0a2c4d5e6f708091a2b'' []
                     (sample_world\<lparr>store_error := name_required\<rparr>))) = [] \<and>
   status (fst (delete_api_items_id ''6631f0a2c4d5e6f708091a2b''
                  (sample_world\<lparr>store_error := name_required\<rparr>))) \<in> {404, 500} \<and>
   rabbit_queues (snd (delete_api_items_id ''6631f0a2c4d5e6f708091a2b''
                         (sample_world\<lparr>store_error := name_required\<rparr>))) = []"
proof -
  let ?w = "sample_world\<lparr>store_error := name_required\<rparr>"
  let ?i = "''6631f0a2c4d5e6f708091a2b''"
  have h1: "isl (fst (Item_save (fst (new_Item [] ?w)) (snd (new_Item [] ?w))))"
    by (simp add: new_Item_def new_ObjectId_def default_now_def new_Date_def Item_save_def
          cast_fields_def name_required_def sample_world_def boot_world_def)
  have h2: "mutation_failed (fst (findByIdAndUpdate ?i
              (AList.update ''updatedAt'' (JString (fst (new_Date ?w))) []) (snd (new_Date ?w))))"
    by (simp add: findByIdAndUpdate_def mutation_failed_def new_Date_def name_required_def
          sample_world_def boot_world_def hex_object_id_def)
  have h3: "mutation_failed (fst (findByIdAndDelete ?i ?w))"
    by (simp add: findByIdAndDelete_def mutation_failed_def name_required_def
          sample_world_def boot_world_def hex_object_id_def)
  have e: "kafka_log ?w = []" "rabbit_queues ?w = []"
    by (simp_all add: sample_world_def boot_world_def)
  show ?thesis
    using h1 h2 h3 failed_mutation_publishes_nothing [of "[]" ?w ?i] by (simp only: e simp_thms)
qed






section \<open>Notifications\<close>


section \<open>Consumer loops\<close>

lemma kafka_iteration_ok:
  assumes "\<not> isl (Unmarshal_KafkaMessage v)"
  shows "received (kafka_iteration (Delivered v) w) = received w @ [received_kafka v]"
    and "skipped (kafka_iteration (Delivered v) w) = skipped w"
    and "kafkaWriter (kafka_iteration (Delivered v) w) = kafkaWriter w"
    and "length (go_events (kafka_iteration (Delivered v) w))
         = (if kafkaWriter w = Up then Suc (length (go_events w)) else length (go_events w))"
  using assms
  by (cases "Unmarshal_KafkaMessage v"; cases "kafkaWriter w";
      simp add: kafka_iteration_def processKafkaMessage_def time_Now_def WriteMessages_def
        log_Printf_def received_def skipped_def received_kafka_def)+

lemma kafka_iteration_bad:
  assumes "isl (Unmarshal_KafkaMessage v)"
  shows "received (kafka_iteration (Delivered v) w) = received w"
    and "skipped (kafka_iteration (Delivered v) w) = Suc (skipped w)"
    and "kafkaWriter (kafka_iteration (Delivered v) w) = kafkaWriter w"
    and "go_events (kafka_iteration (Delivered v) w) = go_events w"
  using assms
  by (cases "Unmarshal_KafkaMessage v";
      simp add: kafka_iteration_def log_Printf_def received_def skipped_def)+

lemma startKafkaConsumer_append:
  "startKafkaConsumer (rs @ rs') w = startKafkaConsumer rs' (startKafkaConsumer rs w)"
  by (induction rs arbitrary: w) simp_all

lemma kafka_run_ok:
  assumes "\<forall>v\<in>set xs. \<not> isl (Unmarshal_KafkaMessage v)"
  shows "received (startKafkaConsumer (map Delivered xs) w) = received w @ map received_kafka xs
       \<and> skipped (startKafkaConsumer (map Delivered xs) w) = skipped w
       \<and> kafkaWriter (startKafkaConsumer (map Delivered xs) w) = kafkaWriter w
       \<and> length (go_events (startKafkaConsumer (map Delivered xs) w))
           = (if kafkaWriter w = Up then length (go_events w) + length xs else length (go_events w))"
  using assms
proof (induction xs arbitrary: w)
  case Nil
  then show ?case by simp
next
  case (Cons x xs)
  then have x: "\<not> isl (Unmarshal_KafkaMessage x)" and xs: "\<forall>v\<in>set xs. \<not> isl (Unmarshal_KafkaMessage v)"
    by simp_all
  show ?case
    using Cons.IH [OF xs, of "kafka_iteration (Delivered x) w"]
    by (simp add: kafka_iteration_ok [OF x])
qed

lemma kafka_loop_one_malformed:
  assumes "\<forall>v\<in>set xs. \<not> isl (Unmarshal_KafkaMessage v)"
    and "isl (Unmarshal_KafkaMessage bad)"
    and "\<forall>v\<in>set ys. \<not> isl (Unmarshal_KafkaMessage v)"
  shows "received (startKafkaConsumer (map Delivered (xs @ bad # ys)) w)
           = received w @ map received_kafka (xs @ ys)
       \<and> skipped (startKafkaConsumer (map Delivered (xs @ bad # ys)) w) = skipped w + 1
       \<and> length (go_events (startKafkaConsumer (map Delivered (xs @ bad # ys)) w))
           = (if kafkaWriter w = Up then length (go_events w) + length xs + length ys
              else length (go_events w))"
proof -
  let ?w1 = "startKafkaConsumer (map Delivered xs) w"
  let ?w2 = "kafka_iteration (Delivered bad) ?w1"
  have split: "startKafkaConsumer (map Delivered (xs @ bad # ys)) w
               = startKafkaConsumer (map Delivered ys) ?w2"
    by (simp add: startKafkaConsumer_append)
  show ?thesis
    unfolding split
    using kafka_run_ok [OF assms(1), of w] kafka_iteration_bad [OF assms(2), of ?w1]
      kafka_run_ok [OF assms(3), of ?w2]
    by simp
qed

lemma rabbit_iteration_ok:
  assumes "\<not> isl (Unmarshal_RabbitMessage v)"
  shows "received (rabbit_iteration v w) = received w @ [received_rabbit v]"
    and "skipped (rabbit_iteration v w) = skipped w"
    and "go_rabbitChannel (rabbit_iteration v w) = go_rabbitChannel w"
    and "length (published (rabbit_iteration v w))
         = (if go_rabbitChannel w = Up then Suc (length (published w)) else length (published w))"
  using assms
  by (cases "Unmarshal_RabbitMessage v"; cases "go_rabbitChannel w";
      simp add: rabbit_iteration_def processRabbitMessage_def time_Now_def Publish_def
        log_Printf_def received_def skipped_def received_rabbit_def)+

lemma rabbit_iteration_bad:
  assumes "isl (Unmarshal_RabbitMessage v)"
  shows "received (rabbit_iteration v w) = received w"
    and "skipped (rabbit_iteration v w) = Suc (skipped w)"
    and "go_rabbitChannel (rabbit_iteration v w) = go_rabbitChannel w"
    and "published (rabbit_iteration v w) = published w"
  using assms
  by (cases "Unmarshal_RabbitMessage v";
      simp add: rabbit_iteration_def log_Printf_def received_def skipped_def)+

lemma rabbit_range_append:
  "rabbit_range (vs @ vs') w = rabbit_range vs' (rabbit_range vs w)"
  by (induction vs arbitrary: w) simp_all

lemma rabbit_run_ok:
  assumes "\<forall>v\<in>set xs. \<not> isl (Unmarshal_RabbitMessage v)"
  shows "received (rabbit_range xs w) = received w @ map received_rabbit xs
       \<and> skipped (rabbit_range xs w) = skipped w
       \<and> go_rabbitChannel (rabbit_range xs w) = go_rabbitChannel w
       \<and> length (published (rabbit_range xs w))
           = (if go_rabbitChannel w = Up then length (published w) + length xs else length (published w))"
  using assms
proof (induction xs arbitrary: w)
  case Nil
  then show ?case by simp
next
  case (Cons x xs)
  then have x: "\<not> isl (Unmarshal_RabbitMessage x)" and xs: "\<forall>v\<in>set xs. \<not> isl (Unmarshal_RabbitMessage v)"
    by simp_all
  show ?case
    using Cons.IH [OF xs, of "rabbit_iteration x w"]
    by (simp add: rabbit_iteration_ok [OF x])
qed

lemma items_loop_one_malformed:
  assumes "\<forall>v\<in>set xs. \<not> isl (Unmarshal_RabbitMessage v)"
    and "isl (Unmarshal_RabbitMessage bad)"
    and "\<forall>v\<in>set ys. \<not> isl (Unmarshal_RabbitMessage v)"
  shows "received (startRabbitConsumer_items None (xs @ bad # ys) w)
           = received w @ map received_rabbit (xs @ ys)
       \<and> skipped (startRabbitConsumer_items None (xs @ bad # ys) w) = skipped w + 1
       \<and> length (published (startRabbitConsumer_items None (xs @ bad # ys) w))
           = (if go_rabbitChannel w = Up then length (published w) + length xs + length ys
              else length (published w))"
proof -
  let ?w1 = "rabbit_range xs w"
  let ?w2 = "rabbit_iteration bad ?w1"
  have split: "startRabbitConsumer_items None (xs @ bad # ys) w = rabbit_range ys ?w2"
    by (simp add: startRabbitConsumer_items_def rabbit_range_append)
  show ?thesis
    unfolding split
    using rabbit_run_ok [OF assms(1), of w] rabbit_iteration_bad [OF assms(2), of ?w1]
      rabbit_run_ok [OF assms(3), of ?w2]
    by simp
qed

lemma notification_iteration_ok:
  assumes "\<not> isl (Unmarshal_NotificationMessage v)"
  shows "received (notification_iteration v w) = received w @ [received_notification v]"
    and "skipped (notification_iteration v w) = skipped w"
    and "go_rabbitChannel (notification_iteration v w) = go_rabbitChannel w"
    and "length (published (notification_iteration v w))
         = (if go_rabbitChannel w = Up then Suc (length (published w)) else length (published w))"
  using assms
  by (cases "Unmarshal_NotificationMessage v"; cases "go_rabbitChannel w";
      simp add: notification_iteration_def processNotification_def NewObjectID_def time_Now_def Publish_def
        log_Printf_def received_def skipped_def received_notification_def)+

lemma notification_iteration_bad:
  assumes "isl (Unmarshal_NotificationMessage v)"
  shows "received (notification_iteration v w) = received w"
    and "skipped (notification_iteration v w) = Suc (skipped w)"
    and "go_rabbitChannel (notification_iteration v w) = go_rabbitChannel w"
    and "published (notification_iteration v w) = published w"
  using assms
  by (cases "Unmarshal_NotificationMessage v";
      simp add: notification_iteration_def log_Printf_def received_def skipped_def)+

lemma notification_range_append:
  "notification_range (vs @ vs') w = notification_range vs' (notification_range vs w)"
  by (induction vs arbitrary: w) simp_all

lemma notification_run_ok:
  assumes "\<forall>v\<in>set xs. \<not> isl (Unmarshal_NotificationMessage v)"
  shows "received (notification_range xs w) = received w @ map received_notification xs
       \<and> skipped (notification_range xs w) = skipped w
       \<and> go_rabbitChannel (notification_range xs w) = go_rabbitChannel w
       \<and> length (published (notification_range xs w))
           = (if go_rabbitChannel w = Up then length (published w) + length xs else length (published w))"
  using assms
proof (induction xs arbitrary: w)
  case Nil
  then show ?case by simp
next
  case (Cons x xs)
  then have x: "\<not> isl (Unmarshal_NotificationMessage x)" and xs: "\<forall>v\<in>set xs. \<not> isl (Unmarshal_NotificationMessage v)"
    by simp_all
  show ?case
    using Cons.IH [OF xs, of "notification_iteration x w"]
    by (simp add: notification_iteration_ok [OF x])
qed

lemma notifications_loop_one_malformed:
  assumes "\<forall>v\<in>set xs. \<not> isl (Unmarshal_NotificationMessage v)"
    and "isl (Unmarshal_NotificationMessage bad)"
    and "\<forall>v\<in>set ys. \<not> isl (Unmarshal_NotificationMessage v)"
  shows "received (startRabbitConsumer_notifications None (xs @ bad # ys) w)
           = received w @ map received_notification (xs @ ys)
       \<and> skipped (startRabbitConsumer_notifications None (xs @ bad # ys) w) = skipped w + 1
       \<and> length (published (startRabbitConsumer_notifications None (xs @ bad # ys) w))
           = (if go_rabbitChannel w = Up then length (published w) + length xs + length ys
              else length (published w))"
proof -
  let ?w1 = "notification_range xs w"
  let ?w2 = "notification_iteration bad ?w1"
  have split: "startRabbitConsumer_notifications None (xs @ bad # ys) w = notification_range ys ?w2"
    by (simp add: startRabbitConsumer_notifications_def notification_range_append)
  show ?thesis
    unfolding split
    using notification_run_ok [OF assms(1), of w] notification_iteration_bad [OF assms(2), of ?w1]
      notification_run_ok [OF assms(3), of ?w2]
    by simp
qed

lemma bind_string_refused: "\<not> string_or_null x \<Longrightarrow> bind_string field x cur = Inl (UnmarshalTypeError field)"
  by (cases x) simp_all

lemma bind_string_taken: "string_or_null x \<Longrightarrow> \<exists>s. bind_string field x cur = Inr s"
  by (cases x) simp_all

lemma fold_key_tags:
  "fold_key ''event'' \<noteq> fold_key ''data''" "fold_key ''event'' \<noteq> fold_key ''timestamp''"
  "fold_key ''data'' \<noteq> fold_key ''timestamp''"
  "fold_key ''action'' \<noteq> fold_key ''item''" "fold_key ''action'' \<noteq> fold_key ''itemId''"
  "fold_key ''action'' \<noteq> fold_key ''timestamp''" "fold_key ''item'' \<noteq> fold_key ''itemId''"
  "fold_key ''item'' \<noteq> fold_key ''timestamp''" "fold_key ''itemId'' \<noteq> fold_key ''timestamp''"
  "fold_key ''message'' \<noteq> fold_key ''recipient''" "fold_key ''message'' \<noteq> fold_key ''timestamp''"
  "fold_key ''recipient'' \<noteq> fold_key ''timestamp''"
  by (simp_all add: to_lower_def)

lemma equalFold_one_tag: "equalFold k s \<Longrightarrow> fold_key s \<noteq> fold_key t \<Longrightarrow> \<not> equalFold k t"
  by (simp add: equalFold_def)

lemma KafkaMessage_members_rejected:
  "list_ex (\<lambda>(k, x). list_ex (equalFold k) [''event'', ''timestamp''] \<and> \<not> string_or_null x) kvs
   \<Longrightarrow> isl (KafkaMessage_members kvs m)"
proof (induction kvs arbitrary: m)
  case Nil
  then show ?case by simp
next
  case (Cons kv kvs)
  obtain k x where kv: "kv = (k, x)" by (cases kv)
  show ?case
  proof (cases "string_or_null x")
    case True
    then have rest: "list_ex (\<lambda>(k, x). list_ex (equalFold k) [''event'', ''timestamp''] \<and> \<not> string_or_null x) kvs"
      using Cons.prems kv by simp
    obtain s t where "bind_string ''event'' x (Event m) = Inr s"
      and "bind_string ''timestamp'' x (Timestamp m) = Inr t"
      using bind_string_taken [OF True] by blast
    then show ?thesis
      using Cons.IH [OF rest] kv by simp
  next
    case False
    show ?thesis
    proof (cases "equalFold k ''event'' \<or> equalFold k ''timestamp''")
      case True
      then show ?thesis
        using False kv equalFold_one_tag [of k "''timestamp''" "''data''"] fold_key_tags
        by (auto simp: bind_string_refused)
    next
      case no: False
      then have rest: "list_ex (\<lambda>(k, x). list_ex (equalFold k) [''event'', ''timestamp''] \<and> \<not> string_or_null x) kvs"
        using Cons.prems kv by simp
      show ?thesis
        using Cons.IH [OF rest] kv no by simp
    qed
  qed
qed

lemma RabbitMessage_members_rejected:
  "list_ex (\<lambda>(k, x). list_ex (equalFold k) [''action'', ''itemId'', ''timestamp''] \<and> \<not> string_or_null x) kvs
   \<Longrightarrow> isl (RabbitMessage_members kvs m)"
proof (induction kvs arbitrary: m)
  case Nil
  then show ?case by simp
next
  case (Cons kv kvs)
  obtain k x where kv: "kv = (k, x)" by (cases kv)
  show ?case
  proof (cases "string_or_null x")
    case True
    then have rest: "list_ex (\<lambda>(k, x). list_ex (equalFold k) [''action'', ''itemId'', ''timestamp''] \<and> \<not> string_or_null x) kvs"
      using Cons.prems kv by simp
    obtain s t u where "bind_string ''action'' x (Action m) = Inr s"
      and "bind_string ''itemId'' x (ItemID m) = Inr t"
      and "bind_string ''timestamp'' x (r_Timestamp m) = Inr u"
      using bind_string_taken [OF True] by blast
    then show ?thesis
      using Cons.IH [OF rest] kv by simp
  next
    case False
    show ?thesis
    proof (cases "equalFold k ''action'' \<or> equalFold k ''itemId'' \<or> equalFold k ''timestamp''")
      case True
      then show ?thesis
        using False kv equalFold_one_tag [of k "''itemId''" "''item''"]
          equalFold_one_tag [of k "''timestamp''" "''item''"] fold_key_tags
        by (auto simp: bind_string_refused)
    next
      case no: False
      then have rest: "list_ex (\<lambda>(k, x). list_ex (equalFold k) [''action'', ''itemId'', ''timestamp''] \<and> \<not> string_or_null x) kvs"
        using Cons.prems kv by simp
      show ?thesis
        using Cons.IH [OF rest] kv no by simp
    qed
  qed
qed

lemma NotificationMessage_members_rejected:
  "list_ex (\<lambda>(k, x). list_ex (equalFold k) [''message'', ''recipient'', ''timestamp''] \<and> \<not> string_or_null x) kvs
   \<Longrightarrow> isl (NotificationMessage_members kvs m)"
proof (induction kvs arbitrary: m)
  case Nil
  then show ?case by simp
next
  case (Cons kv kvs)
  obtain k x where kv: "kv = (k, x)" by (cases kv)
  show ?case
  proof (cases "string_or_null x")
    case True
    then have rest: "list_ex (\<lambda>(k, x). list_ex (equalFold k) [''message'', ''recipient'', ''timestamp''] \<and> \<not> string_or_null x) kvs"
      using Cons.prems kv by simp
    obtain s t u where "bind_string ''message'' x (Message m) = Inr s"
      and "bind_string ''recipient'' x (Recipient m) = Inr t"
      and "bind_string ''timestamp'' x (n_Timestamp m) = Inr u"
      using bind_string_taken [OF True] by blast
    then show ?thesis
      using Cons.IH [OF rest] kv by simp
  next
    case False
    show ?thesis
    proof (cases "equalFold k ''message'' \<or> equalFold k ''recipient'' \<or> equalFold k ''timestamp''")
      case True
      then show ?thesis
        using False kv by (auto simp: bind_string_refused)
    next
      case no: False
      then have rest: "list_ex (\<lambda>(k, x). list_ex (equalFold k) [''message'', ''recipient'', ''timestamp''] \<and> \<not> string_or_null x) kvs"
        using Cons.prems kv by simp
      show ?thesis
        using Cons.IH [OF rest] kv no by simp
    qed
  qed
qed

lemma rejected_is_refused:
  "rejected [''event'', ''timestamp''] v \<Longrightarrow> isl (Unmarshal_KafkaMessage v)"
  "rejected [''action'', ''itemId'', ''timestamp''] v \<Longrightarrow> isl (Unmarshal_RabbitMessage v)"
  "rejected [''message'', ''recipient'', ''timestamp''] v \<Longrightarrow> isl (Unmarshal_NotificationMessage v)"
  by (cases v rule: ShouldBindJSON.cases;
      simp add: rejected_def KafkaMessage_members_rejected RabbitMessage_members_rejected
        NotificationMessage_members_rejected)+

lemma event_decoded:
  "Unmarshal_KafkaMessage (event_payload ev)
     = Inr \<lparr>Event = fst ev, Data = fst (snd ev), Timestamp = snd (snd ev)\<rparr>"
  by (cases ev) (simp add: kafka_value_def stringify_object_def List.map_filter_simps
        equalFold_def to_lower_def)

lemma action_decoded:
  "Unmarshal_RabbitMessage (action_payload (ItemAction a d t))
     = Inr \<lparr>Action = a, Item = d, ItemID = [], r_Timestamp = t\<rparr>"
  "Unmarshal_RabbitMessage (action_payload (DeletedAction a i t))
     = Inr \<lparr>Action = a, Item = JNull, ItemID = i, r_Timestamp = t\<rparr>"
  by (simp_all add: equalFold_def to_lower_def)

lemma notice_decoded:
  "Unmarshal_NotificationMessage (notice_payload n)
     = Inr \<lparr>Message = fst n, Recipient = fst (snd n), n_Timestamp = snd (snd n)\<rparr>"
  by (cases n) (simp add: equalFold_def to_lower_def)

lemma shaped_received:
  "received_kafka (event_payload ev) = event_line ev"
  "received_rabbit (action_payload q) = action_line q"
  "received_notification (notice_payload n) = notice_line n"
  by (cases ev, simp add: received_kafka_def event_decoded del: event_payload.simps,
      cases q, simp_all add: received_rabbit_def action_decoded del: action_payload.simps,
      cases n, simp add: received_notification_def notice_decoded del: notice_payload.simps)

lemma shaped_accepted:
  "\<not> isl (Unmarshal_KafkaMessage (event_payload ev))"
  "\<not> isl (Unmarshal_RabbitMessage (action_payload q))"
  "\<not> isl (Unmarshal_NotificationMessage (notice_payload n))"
  by (simp add: event_decoded, cases q, simp_all add: action_decoded notice_decoded
      del: action_payload.simps notice_payload.simps)

text \<open>
  Claim C6, as amended. Each of the three consumer loops of the Go service (Kafka topic
  \<open>item-events\<close>, queue \<open>items_queue\<close>, queue \<open>notifications_queue\<close>), run over \<open>N\<close>
  messages of its channel's shape, then one message that \<open>json.Unmarshal\<close> refuses
  (text that is not JSON; a JSON array, string, number or boolean; an object that gives
  a string field a value that is neither a string nor \<open>null\<close>), then \<open>M\<close> messages of
  its channel's shape: it logs the receipt of exactly the \<open>N + M\<close> messages, in order
  and with their own fields, and hands each to its processor (which emits one
  acknowledgement for each when its channel is up); it logs exactly one decoding
  error; and it goes on to the messages after the one it skipped. The payloads are
  documents whose numbers fit a \<open>float64\<close>.
\<close>

theorem consumer_loops_skip_refused:
  "(rejected [''event'', ''timestamp''] bad \<and> list_all event_fits (es @ es') \<longrightarrow>
      received (startKafkaConsumer
                  (map Delivered (map event_payload es @ bad # map event_payload es')) w)
        = received w @ map event_line (es @ es') \<and>
      skipped (startKafkaConsumer
                 (map Delivered (map event_payload es @ bad # map event_payload es')) w)
        = skipped w + 1 \<and>
      length (go_events (startKafkaConsumer
                           (map Delivered (map event_payload es @ bad # map event_payload es')) w))
        = (if kafkaWriter w = Up then length (go_events w) + length es + length es'
           else length (go_events w))) \<and>
   (rejected [''action'', ''itemId'', ''timestamp''] bad \<and> list_all action_fits (qs @ qs') \<longrightarrow>
      received (startRabbitConsumer_items None
                  (map action_payload qs @ bad # map action_payload qs') w)
        = received w @ map action_line (qs @ qs') \<and>
      skipped (startRabbitConsumer_items None
                 (map action_payload qs @ bad # map action_payload qs') w)
        = skipped w + 1 \<and>
      length (published (startRabbitConsumer_items None
                           (map action_payload qs @ bad # map action_payload qs') w))
        = (if go_rabbitChannel w = Up then length (published w) + length qs + length qs'
           else length (published w))) \<and>
   (rejected [''message'', ''recipient'', ''timestamp''] bad \<longrightarrow>
      received (startRabbitConsumer_notifications None
                  (map notice_payload ns @ bad # map notice_payload ns') w)
        = received w @ map notice_line (ns @ ns') \<and>
      skipped (startRabbitConsumer_notifications None
                 (map notice_payload ns @ bad # map notice_payload ns') w)
        = skipped w + 1 \<and>
      length (published (startRabbitConsumer_notifications None
                           (map notice_payload ns @ bad # map notice_payload ns') w))
        = (if go_rabbitChannel w = Up then length (published w) + length ns + length ns'
           else length (published w)))"
proof (intro conjI impI)
  assume "rejected [''event'', ''timestamp''] bad \<and> list_all event_fits (es @ es')"
  then have "isl (Unmarshal_KafkaMessage bad)"
    by (simp add: rejected_is_refused)
  from kafka_loop_one_malformed [of "map event_payload es" bad "map event_payload es'" w, OF _ this]
  show "received (startKafkaConsumer
                  (map Delivered (map event_payload es @ bad # map event_payload es')) w)
        = received w @ map event_line (es @ es')"
    and "skipped (startKafkaConsumer
                 (map Delivered (map event_payload es @ bad # map event_payload es')) w)
        = skipped w + 1"
    and "length (go_events (startKafkaConsumer
                           (map Delivered (map event_payload es @ bad # map event_payload es')) w))
        = (if kafkaWriter w = Up then length (go_events w) + length es + length es'
           else length (go_events w))"
    by (simp_all add: shaped_accepted shaped_received comp_def del: event_payload.simps)
next
  assume "rejected [''action'', ''itemId'', ''timestamp''] bad \<and> list_all action_fits (qs @ qs')"
  then have "isl (Unmarshal_RabbitMessage bad)"
    by (simp add: rejected_is_refused)
  from items_loop_one_malformed [of "map action_payload qs" bad "map action_payload qs'" w, OF _ this]
  show "received (startRabbitConsumer_items None
                  (map action_payload qs @ bad # map action_payload qs') w)
        = received w @ map action_line (qs @ qs')"
    and "skipped (startRabbitConsumer_items None
                 (map action_payload qs @ bad # map action_payload qs') w)
        = skipped w + 1"
    and "length (published (startRabbitConsumer_items None
                           (map action_payload qs @ bad # map action_payload qs') w))
        = (if go_rabbitChannel w = Up then length (published w) + length qs + length qs'
           else length (published w))"
    by (simp_all add: shaped_accepted shaped_received comp_def del: action_payload.simps)
next
  assume "rejected [''message'', ''recipient'', ''timestamp''] bad"
  then have "isl (Unmarshal_NotificationMessage bad)"
    by (simp add: rejected_is_refused)
  from notifications_loop_one_malformed
         [of "map notice_payload ns" bad "map notice_payload ns'" w, OF _ this]
  show "received (startRabbitConsumer_notifications None
                  (map notice_payload ns @ bad # map notice_payload ns') w)
        = received w @ map notice_line (ns @ ns')"
    and "skipped (startRabbitConsumer_notifications None
                 (map notice_payload ns @ bad # map notice_payload ns') w)
        = skipped w + 1"
    and "length (published (startRabbitConsumer_notifications None
                           (map notice_payload ns @ bad # map notice_payload ns') w))
        = (if go_rabbitChannel w = Up then length (published w) + length ns + length ns'
           else length (published w))"
    by (simp_all add: shaped_accepted shaped_received comp_def del: notice_payload.simps)
qed

theorem consumer_loops_skip_refused_witness:
  "received (startKafkaConsumer
       (map Delivered
          [event_payload (''item_created'', JObject widget, ''2024-05-01T10:00:00.000Z''),
           JSON (JObject [(''EVENT'', JNumber 5)]),
           event_payload (''item_deleted'', JObject [(''id'', JString ''6631f0a2c4d5e6f708091a2b'')],
                          ''2024-05-01T10:00:01.000Z'')])
       sample_go_world)
     = [ReceivedKafka ''item_created'' ''2024-05-01T10:00:00.000Z'',
        ReceivedKafka ''item_deleted'' ''2024-05-01T10:00:01.000Z''] \<and>
   skipped (startKafkaConsumer
       (map Delivered
          [event_payload (''item_created'', JObject widget, ''2024-05-01T10:00:00.000Z''),
           JSON (JObject [(''EVENT'', JNumber 5)]),
           event_payload (''item_deleted'', JObject [(''id'', JString ''6631f0a2c4d5e6f708091a2b'')],
                          ''2024-05-01T10:00:01.000Z'')])
       sample_go_world) = 1 \<and>
   length (go_events (startKafkaConsumer
       (map Delivered
          [event_payload (''item_created'', JObject widget, ''2024-05-01T10:00:00.000Z''),
           JSON (JObject [(''EVENT'', JNumber 5)]),
           event_payload (''item_deleted'', JObject [(''id'', JString ''6631f0a2c4d5e6f708091a2b'')],
                          ''2024-05-01T10:00:01.000Z'')])
       sample_go_world)) = 2 \<and>
   received (startRabbitConsumer_items None
       [action_payload (ItemAction ''created'' (JObject widget) ''2024-05-01T10:00:00.000Z''),
        JSON (JArray []),
        action_payload (DeletedAction ''deleted'' ''6631f0a2c4d5e6f708091a2b''
                          ''2024-05-01T10:00:01.000Z'')]
       sample_go_world)
     = [ReceivedRabbit ''created'' ''2024-05-01T10:00:00.000Z'',
        ReceivedRabbit ''deleted'' ''2024-05-01T10:00:01.000Z''] \<and>
   skipped (startRabbitConsumer_items None
       [action_payload (ItemAction ''created'' (JObject widget) ''2024-05-01T10:00:00.000Z''),
        JSON (JArray []),
        action_payload (DeletedAction ''deleted'' ''6631f0a2c4d5e6f708091a2b''
                          ''2024-05-01T10:00:01.000Z'')]
       sample_go_world) = 1 \<and>
   length (published (startRabbitConsumer_items None
       [action_payload (ItemAction ''created'' (JObject widget) ''2024-05-01T10:00:00.000Z''),
        JSON (JArray []),
        action_payload (DeletedAction ''deleted'' ''6631f0a2c4d5e6f708091a2b''
                          ''2024-05-01T10:00:01.000Z'')]
       sample_go_world)) = 2 \<and>
   received (startRabbitConsumer_notifications None
       [notice_payload (''Restocked'', ''ops@example.com'', ''2024-05-01T10:00:00.000Z''),
        NotJSON ''{ message: '',
        notice_payload (''Sold out'', ''ops@example.com'', ''2024-05-01T10:00:01.000Z'')]
       sample_go_world)
     = [ReceivedNotification ''Restocked'' ''ops@example.com'',
        ReceivedNotification ''Sold out'' ''ops@example.com''] \<and>
   skipped (startRabbitConsumer_notifications None
       [notice_payload (''Restocked'', ''ops@example.com'', ''2024-05-01T10:00:00.000Z''),
        NotJSON ''{ message: '',
        notice_payload (''Sold out'', ''ops@example.com'', ''2024-05-01T10:00:01.000Z'')]
       sample_go_world) = 1 \<and>
   length (published (startRabbitConsumer_notifications None
       [notice_payload (''Restocked'', ''ops@example.com'', ''2024-05-01T10:00:00.000Z''),
        NotJSON ''{ message: '',
        notice_payload (''Sold out'', ''ops@example.com'', ''2024-05-01T10:00:01.000Z'')]
       sample_go_world)) = 2"
proof -
  let ?e = "(''item_created'', JObject widget, ''2024-05-01T10:00:00.000Z'')"
  let ?e' = "(''item_deleted'', JObject [(''id'', JString ''6631f0a2c4d5e6f708091a2b'')],
              ''2024-05-01T10:00:01.000Z'')"
  let ?q = "ItemAction ''created'' (JObject widget) ''2024-05-01T10:00:00.000Z''"
  let ?q' = "DeletedAction ''deleted'' ''6631f0a2c4d5e6f708091a2b'' ''2024-05-01T10:00:01.000Z''"
  let ?n = "(''Restocked'', ''ops@example.com'', ''2024-05-01T10:00:00.000Z'')"
  let ?n' = "(''Sold out'', ''ops@example.com'', ''2024-05-01T10:00:01.000Z'')"
  have k: "rejected [''event'', ''timestamp''] (JSON (JObject [(''EVENT'', JNumber 5)])) \<and>
           list_all event_fits ([?e] @ [?e'])"
    by (simp add: rejected_def equalFold_def to_lower_def widget_def float64_limit_def)
  have r: "rejected [''action'', ''itemId'', ''timestamp''] (JSON (JArray [])) \<and>
           list_all action_fits ([?q] @ [?q'])"
    by (simp add: rejected_def widget_def float64_limit_def)
  have n: "rejected [''message'', ''recipient'', ''timestamp''] (NotJSON ''{ message: '')"
    by (simp add: rejected_def)
  have w0: "received sample_go_world = []" "skipped sample_go_world = 0"
    "go_events sample_go_world = []" "published sample_go_world = []"
    "kafkaWriter sample_go_world = Up" "go_rabbitChannel sample_go_world = Up"
    by (simp_all add: received_def skipped_def sample_go_world_def)
  note kafka = consumer_loops_skip_refused
      [where bad = "JSON (JObject [(''EVENT'', JNumber 5)])" and es = "[?e]" and es' = "[?e']"
         and w = sample_go_world, THEN conjunct1, THEN mp, OF k]
  note rabbit = consumer_loops_skip_refused
      [where bad = "JSON (JArray [])" and qs = "[?q]" and qs' = "[?q']"
         and w = sample_go_world, THEN conjunct2, THEN conjunct1, THEN mp, OF r]
  note notify = consumer_loops_skip_refused
      [where bad = "NotJSON ''{ message: ''" and ns = "[?n]" and ns' = "[?n']"
         and w = sample_go_world, THEN conjunct2, THEN conjunct2, THEN mp, OF n]
  show ?thesis
    using kafka rabbit notify by (simp add: w0)
qed

text \<open>
  The claim as first stated does not hold for a message that \<open>json.Unmarshal\<close> accepts
  although the fields of its channel are absent: the empty object is decoded to a
  message of empty strings and handed to the processor like any other, so the loop over
  an event, \<open>{}\<close> and another event logs three receipts, three acknowledgements and no
  decoding error.
\<close>

theorem empty_object_is_dispatched:
  "received (startKafkaConsumer
       (map Delivered
          [event_payload (''item_created'', JObject widget, ''2024-05-01T10:00:00.000Z''),
           JSON (JObject []),
           event_payload (''item_deleted'', JObject [(''id'', JString ''6631f0a2c4d5e6f708091a2b'')],
                          ''2024-05-01T10:00:01.000Z'')])
       sample_go_world)
     = [ReceivedKafka ''item_created'' ''2024-05-01T10:00:00.000Z'',
        ReceivedKafka [] [],
        ReceivedKafka ''item_deleted'' ''2024-05-01T10:00:01.000Z''] \<and>
   skipped (startKafkaConsumer
       (map Delivered
          [event_payload (''item_created'', JObject widget, ''2024-05-01T10:00:00.000Z''),
           JSON (JObject []),
           event_payload (''item_deleted'', JObject [(''id'', JString ''6631f0a2c4d5e6f708091a2b'')],
                          ''2024-05-01T10:00:01.000Z'')])
       sample_go_world) = 0 \<and>
   length (go_events (startKafkaConsumer
       (map Delivered
          [event_payload (''item_created'', JObject widget, ''2024-05-01T10:00:00.000Z''),
           JSON (JObject []),
           event_payload (''item_deleted'', JObject [(''id'', JString ''6631f0a2c4d5e6f708091a2b'')],
                          ''2024-05-01T10:00:01.000Z'')])
       sample_go_world)) = 3"
proof -
  let ?vs = "[event_payload (''item_created'', JObject widget, ''2024-05-01T10:00:00.000Z''),
              JSON (JObject []),
              event_payload (''item_deleted'', JObject [(''id'', JString ''6631f0a2c4d5e6f708091a2b'')],
                             ''2024-05-01T10:00:01.000Z'')]"
  have ok: "\<forall>v\<in>set ?vs. \<not> isl (Unmarshal_KafkaMessage v)"
    by (simp add: shaped_accepted del: event_payload.simps)
  have w0: "received sample_go_world = []" "skipped sample_go_world = 0"
    "go_events sample_go_world = []" "kafkaWriter sample_go_world = Up"
    by (simp_all add: received_def skipped_def sample_go_world_def)
  have empty: "received_kafka (JSON (JObject [])) = ReceivedKafka [] []"
    by (simp add: received_kafka_def)
  show ?thesis
    using kafka_run_ok [OF ok, of sample_go_world]
    by (simp add: w0 empty shaped_received del: event_payload.simps)
qed

section \<open>Startup\<close>

lemma declare_queues_three:
  "declare_queues env [a, b, c] =
     (case QueueDeclare env a of
        Some err \<Rightarrow> (Some (''failed to declare queue '' @ a @ '': '' @ err), [DeclareQueue a])
      | None \<Rightarrow>
          (case QueueDeclare env b of
             Some err \<Rightarrow> (Some (''failed to declare queue '' @ b @ '': '' @ err), [DeclareQueue a, DeclareQueue b])
           | None \<Rightarrow>
               (case QueueDeclare env c of
                  Some err \<Rightarrow>
                    (Some (''failed to declare queue '' @ c @ '': '' @ err),
                     [DeclareQueue a, DeclareQueue b, DeclareQueue c])
                | None \<Rightarrow> (None, [DeclareQueue a, DeclareQueue b, DeclareQueue c]))))"
  by (simp split: option.splits)

lemma connectMongoDB_steps:
  "set (snd (connectMongoDB env)) \<subseteq> {MongoConnect, MongoPing}" "distinct (snd (connectMongoDB env))"
  by (simp_all add: connectMongoDB_def split: option.splits)

lemma connectRabbitMQ_steps:
  "set (snd (connectRabbitMQ env)) \<subseteq>
     {AmqpDial, AmqpChannel, DeclareQueue ''items_queue'', DeclareQueue ''notifications_queue'',
      DeclareQueue ''go_events_queue''}"
  "distinct (snd (connectRabbitMQ env))"
  by (simp_all add: connectRabbitMQ_def declare_queues_three split: option.splits)

lemma main_distinct: "distinct (snd (main env))"
proof -
  have "distinct (snd (connectMongoDB env) @ snd connectKafka @ snd (connectRabbitMQ env)
                  @ [StartKafkaConsumer, StartRabbitConsumer, ListenAndServe])"
    using connectMongoDB_steps [of env] connectRabbitMQ_steps [of env]
    by (auto simp: connectKafka_def)
  then show ?thesis
    by (auto simp: main_def connectKafka_def split: prod.splits option.splits)
qed

lemma main_mongo_fails:
  "fst (connectMongoDB env) = Some err \<Longrightarrow>
   main env = (Terminated (''Failed to connect to MongoDB: '' @ err), snd (connectMongoDB env))"
  by (cases "connectMongoDB env") (simp add: main_def)

lemma main_rabbit_fails:
  "fst (connectMongoDB env) = None \<Longrightarrow> fst (connectRabbitMQ env) = Some err \<Longrightarrow>
   main env = (Terminated (''Failed to connect to RabbitMQ: '' @ err),
               snd (connectMongoDB env) @ snd connectKafka @ snd (connectRabbitMQ env))"
  by (cases "connectMongoDB env"; cases "connectRabbitMQ env") (simp add: main_def connectKafka_def)

lemma main_not_serving:
  assumes "fst (main env) \<noteq> Serving"
  shows "StartKafkaConsumer \<notin> set (snd (main env)) \<and> StartRabbitConsumer \<notin> set (snd (main env))
       \<and> ListenAndServe \<notin> set (snd (main env))"
proof -
  have "snd (main env) = snd (connectMongoDB env)
      \<or> snd (main env) = snd (connectMongoDB env) @ snd connectKafka @ snd (connectRabbitMQ env)"
    using assms by (auto simp: main_def connectKafka_def split: prod.splits option.splits)
  then show ?thesis
    using connectMongoDB_steps(1) [of env] connectRabbitMQ_steps(1) [of env]
    by (auto simp: connectKafka_def)
qed

lemma initializeServices_returns: "fst (initializeServices env w) = Inr ()"
  by (simp add: initializeServices_def split: prod.splits sum.splits)

lemma app_listen_serving: "fst (app_listen port env w) = Serving"
  using initializeServices_returns [of env "console_log (''Node API server running on port '' @ port) w"]
  by (auto simp: app_listen_def split: prod.splits sum.splits)

lemma app_listen_producer_fails:
  "app_listen port (nenv\<lparr>producer_connect := Some msg\<rparr>) w
     = (Serving,
        w\<lparr>console := console w @
             [ConsoleLog (''Node API server running on port '' @ port),
              ConsoleError ''Error initializing services:'' (JsError msg)]\<rparr>)"
  by (simp add: app_listen_def initializeServices_def initialize_try_def console_log_def
        console_error_def)

lemma app_listen_consumer_fails:
  "app_listen port (nenv\<lparr>producer_connect := None, consumer_connect := Some msg\<rparr>) w
     = (Serving,
        w\<lparr>producer := Up,
          console := console w @
             [ConsoleLog (''Node API server running on port '' @ port),
              ConsoleLog ''Kafka producer connected'',
              ConsoleError ''Error initializing services:'' (JsError msg)]\<rparr>)"
  by (simp add: app_listen_def initializeServices_def initialize_try_def console_log_def
        console_error_def)

lemma app_listen_amqp_fails:
  "app_listen port (nenv\<lparr>producer_connect := None, consumer_connect := None,
                         consumer_subscribe := None, consumer_run := None,
                         amqp_connect := Some msg\<rparr>) w
     = (Serving,
        w\<lparr>producer := Up,
          console := console w @
             [ConsoleLog (''Node API server running on port '' @ port),
              ConsoleLog ''Kafka producer connected'',
              ConsoleLog ''Kafka consumer connected'',
              ConsoleError ''RabbitMQ connection error:'' (JsError msg)]\<rparr>)"
  by (simp add: app_listen_def initializeServices_def initialize_try_def connectRabbitMQ_node_def
        console_log_def console_error_def)

lemma main_serving_iff:
  "fst (main env) = Serving \<longleftrightarrow> fst (connectMongoDB env) = None \<and> fst (connectRabbitMQ env) = None"
  by (cases "connectMongoDB env"; cases "connectRabbitMQ env")
     (auto simp: main_def connectKafka_def split: option.splits)

text \<open>
  Claim C5, as amended. In the Go service a failure of the record-store step (connect
  or ping) or of the queue-broker step (dial, channel, or the declaration of a queue)
  ends \<open>main\<close> in \<open>log.Fatalf\<close> at that step: no later step is taken, the consumers and
  the HTTP server are not started, and \<open>main\<close> serves exactly when both steps succeed;
  its log-broker step builds the reader and the writer and cannot fail; no step is taken
  twice, so there is no retry. In the Node API no connect failure of a broker is fatal:
  the line of the listening server is logged first; a failure to connect the Kafka
  producer or the Kafka consumer is logged with \<open>console.error\<close> as
  \<open>Error initializing services:\<close> and ends the initialisation (RabbitMQ is not tried); a
  failure to connect RabbitMQ is logged as \<open>RabbitMQ connection error:\<close>; in each case
  the process goes on serving. The connection to the record store is not part of that
  sequence: its failure reaches the error listener, which logs it as
  \<open>MongoDB connection error:\<close>.
\<close>

theorem startup_connect_failures:
  "(fst (connectMongoDB env) = Some err \<longrightarrow>
      main env = (Terminated (''Failed to connect to MongoDB: '' @ err), snd (connectMongoDB env))) \<and>
   (fst (connectMongoDB env) = None \<and> fst (connectRabbitMQ env) = Some err \<longrightarrow>
      main env = (Terminated (''Failed to connect to RabbitMQ: '' @ err),
                  snd (connectMongoDB env) @ snd connectKafka @ snd (connectRabbitMQ env))) \<and>
   (fst (main env) \<noteq> Serving \<longrightarrow>
      StartKafkaConsumer \<notin> set (snd (main env)) \<and> StartRabbitConsumer \<notin> set (snd (main env)) \<and>
      ListenAndServe \<notin> set (snd (main env))) \<and>
   (fst (main env) = Serving \<longleftrightarrow>
      fst (connectMongoDB env) = None \<and> fst (connectRabbitMQ env) = None) \<and>
   fst connectKafka = None \<and>
   distinct (snd (main env)) \<and>
   fst (app_listen port nenv w) = Serving \<and>
   app_listen port (nenv\<lparr>producer_connect := Some msg\<rparr>) w
     = (Serving,
        w\<lparr>console := console w @
             [ConsoleLog (''Node API server running on port '' @ port),
              ConsoleError ''Error initializing services:'' (JsError msg)]\<rparr>) \<and>
   app_listen port (nenv\<lparr>producer_connect := None, consumer_connect := Some msg\<rparr>) w
     = (Serving,
        w\<lparr>producer := Up,
          console := console w @
             [ConsoleLog (''Node API server running on port '' @ port),
              ConsoleLog ''Kafka producer connected'',
              ConsoleError ''Error initializing services:'' (JsError msg)]\<rparr>) \<and>
   app_listen port (nenv\<lparr>producer_connect := None, consumer_connect := None,
                         consumer_subscribe := None, consumer_run := None,
                         amqp_connect := Some msg\<rparr>) w
     = (Serving,
        w\<lparr>producer := Up,
          console := console w @
             [ConsoleLog (''Node API server running on port '' @ port),
              ConsoleLog ''Kafka producer connected'',
              ConsoleLog ''Kafka consumer connected'',
              ConsoleError ''RabbitMQ connection error:'' (JsError msg)]\<rparr>) \<and>
   mongoose_connection (Some msg) w
     = w\<lparr>console := console w @ [ConsoleError ''MongoDB connection error:'' (JsError msg)]\<rparr>"
proof -
  have go: "(fst (connectMongoDB env) = Some err \<longrightarrow>
      main env = (Terminated (''Failed to connect to MongoDB: '' @ err), snd (connectMongoDB env))) \<and>
   (fst (connectMongoDB env) = None \<and> fst (connectRabbitMQ env) = Some err \<longrightarrow>
      main env = (Terminated (''Failed to connect to RabbitMQ: '' @ err),
                  snd (connectMongoDB env) @ snd connectKafka @ snd (connectRabbitMQ env))) \<and>
   (fst (main env) \<noteq> Serving \<longrightarrow>
      StartKafkaConsumer \<notin> set (snd (main env)) \<and> StartRabbitConsumer \<notin> set (snd (main env)) \<and>
      ListenAndServe \<notin> set (snd (main env))) \<and>
   (fst (main env) = Serving \<longleftrightarrow>
      fst (connectMongoDB env) = None \<and> fst (connectRabbitMQ env) = None) \<and>
   fst connectKafka = None \<and>
   distinct (snd (main env))"
    using main_mongo_fails [of env err] main_rabbit_fails [of env err] main_not_serving [of env]
      main_serving_iff [of env] main_distinct [of env]
    by (simp add: connectKafka_def)
  have store: "mongoose_connection (Some msg) w
     = w\<lparr>console := console w @ [ConsoleError ''MongoDB connection error:'' (JsError msg)]\<rparr>"
    by (simp add: mongoose_connection_def console_error_def)
  show ?thesis
    unfolding app_listen_producer_fails app_listen_consumer_fails app_listen_amqp_fails
      app_listen_serving store
    using go by simp
qed

text \<open>
  The record store does not answer; the record store answers and the queue broker
  refuses the connection; the Node API cannot reach RabbitMQ.
\<close>

theorem startup_connect_failures_witness:
  "fst (connectMongoDB (sample_go_env\<lparr>mongo_Connect := Some ''server selection timeout''\<rparr>))
     = Some ''failed to connect to MongoDB: server selection timeout'' \<and>
   main (sample_go_env\<lparr>mongo_Connect := Some ''server selection timeout''\<rparr>)
     = (Terminated ''Failed to connect to MongoDB: failed to connect to MongoDB: server selection timeout'',
        [MongoConnect]) \<and>
   fst (connectMongoDB (sample_go_env\<lparr>amqp_Dial := Some ''connection refused''\<rparr>)) = None \<and>
   fst (connectRabbitMQ (sample_go_env\<lparr>amqp_Dial := Some ''connection refused''\<rparr>))
     = Some ''failed to connect to RabbitMQ: connection refused'' \<and>
   main (sample_go_env\<lparr>amqp_Dial := Some ''connection refused''\<rparr>)
     = (Terminated ''Failed to connect to RabbitMQ: failed to connect to RabbitMQ: connection refused'',
        [MongoConnect, MongoPing, KafkaNewReader, KafkaNewWriter, AmqpDial]) \<and>
   ListenAndServe \<notin> set (snd (main (sample_go_env\<lparr>amqp_Dial := Some ''connection refused''\<rparr>))) \<and>
   console (snd (app_listen ''3000'' (sample_node_env\<lparr>amqp_connect := Some ''connect ECONNREFUSED''\<rparr>)
                   boot_world))
     = [ConsoleLog ''Node API server running on port 3000'',
        ConsoleLog ''Kafka producer connected'',
        ConsoleLog ''Kafka consumer connected'',
        ConsoleError ''RabbitMQ connection error:'' (JsError ''connect ECONNREFUSED'')]"
proof -
  let ?e1 = "sample_go_env\<lparr>mongo_Connect := Some ''server selection timeout''\<rparr>"
  let ?e2 = "sample_go_env\<lparr>amqp_Dial := Some ''connection refused''\<rparr>"
  have m1: "connectMongoDB ?e1
            = (Some ''failed to connect to MongoDB: server selection timeout'', [MongoConnect])"
    by (simp add: connectMongoDB_def sample_go_env_def)
  have m2: "connectMongoDB ?e2 = (None, [MongoConnect, MongoPing])"
    by (simp add: connectMongoDB_def sample_go_env_def)
  have r2: "connectRabbitMQ ?e2
            = (Some ''failed to connect to RabbitMQ: connection refused'', [AmqpDial])"
    by (simp add: connectRabbitMQ_def sample_go_env_def)
  have n: "sample_node_env\<lparr>producer_connect := None, consumer_connect := None,
                           consumer_subscribe := None, consumer_run := None,
                           amqp_connect := Some ''connect ECONNREFUSED''\<rparr>
           = sample_node_env\<lparr>amqp_connect := Some ''connect ECONNREFUSED''\<rparr>"
    by (simp add: sample_node_env_def)
  have c: "console boot_world = []"
    by (simp add: boot_world_def)
  show ?thesis
    using startup_connect_failures
            [of ?e1 "''failed to connect to MongoDB: server selection timeout''" "''3000''"
               sample_node_env boot_world "''connect ECONNREFUSED''"]
          startup_connect_failures
            [of ?e2 "''failed to connect to RabbitMQ: connection refused''" "''3000''"
               sample_node_env boot_world "''connect ECONNREFUSED''"]
    by (simp add: m1 m2 r2 n c connectKafka_def)
qed

text \<open>
  Claim C5 as stated fails for the Node API: the Kafka producer cannot connect, the
  error is logged, and the process serves.
\<close>

theorem node_connect_failure_keeps_serving:
  "app_listen ''3000'' (sample_node_env\<lparr>producer_connect := Some ''connect ECONNREFUSED''\<rparr>) boot_world
     = (Serving,
        boot_world\<lparr>console := [ConsoleLog ''Node API server running on port 3000'',
                                ConsoleError ''Error initializing services:''
                                  (JsError ''connect ECONNREFUSED'')]\<rparr>)"
  by (simp add: app_listen_def initializeServices_def initialize_try_def console_log_def
        console_error_def sample_node_env_def boot_world_def)

section \<open>Test events\<close>

text \<open>
  Claim C9, as amended. \<open>POST /api/events\<close> answers 200 with \<open>success: true\<close> when the
  JSON value decoded from the body is \<open>null\<close> or an object whose numbers all fit a
  \<open>float64\<close>, and 400 with \<open>Invalid request body\<close> otherwise: when the value is an
  array, a string, a number or a boolean, when a number of the object does not fit a
  \<open>float64\<close>, and when no JSON value can be decoded. The response does not depend on the
  state of the Kafka writer or of the RabbitMQ channel.
\<close>

theorem sendEvent_response:
  "status (fst (sendEvent request w))
     = (case request of
          JSON (JObject kvs) \<Rightarrow> (if fits_float64 (JObject kvs) then 200 else 400)
        | JSON JNull \<Rightarrow> 200
        | _ \<Rightarrow> 400) \<and>
   fst (sendEvent request (w\<lparr>kafkaWriter := k, go_rabbitChannel := r\<rparr>)) = fst (sendEvent request w) \<and>
   fst (sendEvent (JSON (JObject kvs)) w)
     = (if fits_float64 (JObject kvs)
        then \<lparr>status = 200, reply = JObject [(''message'', JString ''Event sent successfully''),
                                             (''success'', JBool True)]\<rparr>
        else \<lparr>status = 400, reply = JObject [(''error'', JString ''Invalid request body'')]\<rparr>) \<and>
   fst (sendEvent (JSON JNull) w)
     = \<lparr>status = 200, reply = JObject [(''message'', JString ''Event sent successfully''),
                                      (''success'', JBool True)]\<rparr> \<and>
   (case request of
      JSON (JObject kvs) \<Rightarrow> True
    | JSON JNull \<Rightarrow> True
    | _ \<Rightarrow> sendEvent request w
           = (\<lparr>status = 400, reply = JObject [(''error'', JString ''Invalid request body'')]\<rparr>, w))"
  by (cases request rule: ShouldBindJSON.cases)
     (simp_all add: sendEvent_def time_Now_def Let_def split_beta)

text \<open>
  Claim C9 as stated fails on a body that is JSON but not an object: the array \<open>[1]\<close>
  is answered with 400.
\<close>

theorem sendEvent_rejects_json_array:
  "fst (sendEvent (JSON (JArray [JNumber 1])) sample_go_world)
     = \<lparr>status = 400, reply = JObject [(''error'', JString ''Invalid request body'')]\<rparr>"
  by (simp add: sendEvent_def)

end
